theory Spec2Isabelle
  imports Complex_Main
begin

section \<open>JavaScript values\<close>

text \<open>
  The validation module and the forms work on primitive JavaScript values: what a form
  field holds is a string (typed by the user, or the \<open>''\<close> default) or a value copied
  from the record being edited. A string is a list of code units; this development
  covers the code units below 256.

  A Number is identified by the decimal that \<open>Number.prototype.toString\<close> prints for
  it: a finite non-zero Number \<open>x\<close> has exactly one triple of a sign, a digit block
  \<open>s\<close> (not a multiple of 10) and a position \<open>n\<close> of the decimal point such that
  \<open>s * 10 ^ (n - k)\<close>, with \<open>k\<close> the number of digits of \<open>s\<close>, is the shortest
  decimal that reads back as \<open>x\<close>. \<open>Dec neg s n\<close> is that Number. The type has more
  values than there are Numbers (an \<open>s\<close> of forty digits, say); what is proved for
  every value of the type holds for every Number.
\<close>

datatype jsnum = NaN | PosInfinity | NegInfinity | PosZero | NegZero | Dec bool nat int

datatype jsval = JUndefined | JNull | JBool bool | JNum jsnum | JStr string

datatype js_error = TypeError

subsection \<open>Characters and strings\<close>

definition is_digit :: "char \<Rightarrow> bool" where
  "is_digit c = (48 \<le> (of_char c :: nat) \<and> (of_char c :: nat) \<le> 57)"

definition digit_val :: "char \<Rightarrow> nat" where
  "digit_val c = (of_char c :: nat) - 48"

definition is_upper :: "char \<Rightarrow> bool" where
  "is_upper c = (65 \<le> (of_char c :: nat) \<and> (of_char c :: nat) \<le> 90)"

definition is_lower :: "char \<Rightarrow> bool" where
  "is_lower c = (97 \<le> (of_char c :: nat) \<and> (of_char c :: nat) \<le> 122)"

definition is_alpha :: "char \<Rightarrow> bool" where
  "is_alpha c = (is_upper c \<or> is_lower c)"

text \<open>White space and line terminators among the code units below 256: TAB, LF, VT, FF,
  CR, SP and NBSP.\<close>

definition is_ws :: "char \<Rightarrow> bool" where
  "is_ws c = ((of_char c :: nat) \<in> {9, 10, 11, 12, 13, 32, 160})"

definition trimStart :: "string \<Rightarrow> string" where
  "trimStart s = dropWhile is_ws s"

definition trim :: "string \<Rightarrow> string" where
  "trim s = rev (dropWhile is_ws (rev (dropWhile is_ws s)))"

text \<open>\<open>toLowerCase\<close>: A-Z, and the Latin-1 capitals 0xC0-0xDE other than the
  multiplication sign 0xD7, move up by 32.\<close>

definition lower_char :: "char \<Rightarrow> char" where
  "lower_char c =
     (let n = (of_char c :: nat)
      in if (65 \<le> n \<and> n \<le> 90) \<or> (192 \<le> n \<and> n \<le> 222 \<and> n \<noteq> 215)
         then char_of (n + 32) else c)"

definition toLowerCase :: "string \<Rightarrow> string" where
  "toLowerCase s = map lower_char s"

fun starts_with :: "string \<Rightarrow> string \<Rightarrow> bool" where
  "starts_with s [] = True"
| "starts_with [] (p # ps) = False"
| "starts_with (c # cs) (p # ps) = (c = p \<and> starts_with cs ps)"

text \<open>\<open>s.includes(p)\<close>: \<open>p\<close> occurs in \<open>s\<close> as a contiguous block.\<close>

fun str_includes :: "string \<Rightarrow> string \<Rightarrow> bool" where
  "str_includes [] p = (p = [])"
| "str_includes (c # cs) p = (starts_with (c # cs) p \<or> str_includes cs p)"

text \<open>\<open>s.indexOf(c)\<close> for a single character: \<open>None\<close> stands for -1.\<close>

fun indexOf :: "string \<Rightarrow> char \<Rightarrow> nat option" where
  "indexOf [] c = None"
| "indexOf (x # xs) c =
     (if x = c then Some 0 else (case indexOf xs c of None \<Rightarrow> None | Some i \<Rightarrow> Some (Suc i)))"

definition substring :: "string \<Rightarrow> nat \<Rightarrow> string" where
  "substring s i = drop i s"

subsection \<open>Decimal digits\<close>

definition digit_char :: "nat \<Rightarrow> char" where
  "digit_char d = char_of (48 + d)"

fun dec_digits :: "nat \<Rightarrow> string" where
  "dec_digits n = (if n < 10 then [digit_char n] else dec_digits (n div 10) @ [digit_char (n mod 10)])"

declare dec_digits.simps [simp del]

definition digits_val :: "string \<Rightarrow> nat" where
  "digits_val ds = foldl (\<lambda>a c. 10 * a + digit_val c) 0 ds"

definition pow10 :: "int \<Rightarrow> rat" where
  "pow10 e = (if 0 \<le> e then 10 ^ nat e else 1 / 10 ^ nat (- e))"

subsection \<open>Number to string\<close>

text \<open>\<open>Number::toString\<close> of the language specification, radix 10.\<close>

definition num_digits_toString :: "nat \<Rightarrow> int \<Rightarrow> string" where
  "num_digits_toString s n =
     (let ds = dec_digits s; k = int (length ds)
      in if k \<le> n \<and> n \<le> 21 then ds @ replicate (nat (n - k)) CHR ''0''
         else if 0 < n \<and> n \<le> 21 then take (nat n) ds @ ''.'' @ drop (nat n) ds
         else if - 6 < n \<and> n \<le> 0 then ''0.'' @ replicate (nat (- n)) CHR ''0'' @ ds
         else let e = n - 1;
                  es = (if e < 0 then ''-'' else ''+'') @ dec_digits (nat \<bar>e\<bar>)
              in if k = 1 then ds @ ''e'' @ es
                 else take 1 ds @ ''.'' @ drop 1 ds @ ''e'' @ es)"

fun num_toString :: "jsnum \<Rightarrow> string" where
  "num_toString NaN = ''NaN''"
| "num_toString PosInfinity = ''Infinity''"
| "num_toString NegInfinity = ''-Infinity''"
| "num_toString PosZero = ''0''"
| "num_toString NegZero = ''0''"
| "num_toString (Dec neg s n) = (if neg then ''-'' else []) @ num_digits_toString s n"

text \<open>An integer in decimal notation, as \<open>toString\<close> prints an integral Number below
  \<open>10^21\<close> in magnitude.\<close>

definition int_toString :: "int \<Rightarrow> string" where
  "int_toString n = (if n < 0 then ''-'' else []) @ dec_digits (nat \<bar>n\<bar>)"

text \<open>The abstract operation \<open>ToString\<close> on primitives.\<close>

fun ToString :: "jsval \<Rightarrow> string" where
  "ToString JUndefined = ''undefined''"
| "ToString JNull = ''null''"
| "ToString (JBool b) = (if b then ''true'' else ''false'')"
| "ToString (JNum x) = num_toString x"
| "ToString (JStr s) = s"

text \<open>Truthiness (\<open>ToBoolean\<close>).\<close>

fun truthy :: "jsval \<Rightarrow> bool" where
  "truthy JUndefined = False"
| "truthy JNull = False"
| "truthy (JBool b) = b"
| "truthy (JNum x) = (x \<noteq> NaN \<and> x \<noteq> PosZero \<and> x \<noteq> NegZero)"
| "truthy (JStr s) = (s \<noteq> [])"

subsection \<open>Reading numbers from strings\<close>

text \<open>
  What \<open>parseFloat\<close> and \<open>ToNumber\<close> read from a string is kept as the exact
  value of the literal; the Number they return is that value rounded to the nearest
  double. The code only tests such results (for NaN, for finiteness, against a bound), and
  each test is written on the exact value with the rounding taken into account. (For a
  literal of more than 20 significant digits the language lets an implementation round
  from the first 20 of them; the rounding here is the exact one.)
\<close>

datatype numval = NotANumber | Infinite bool | Value rat

definition read_sign :: "string \<Rightarrow> bool \<times> string" where
  "read_sign s =
     (case s of
        [] \<Rightarrow> (False, [])
      | c # r \<Rightarrow> if c = CHR ''-'' then (True, r) else if c = CHR ''+'' then (False, r) else (False, s))"

text \<open>An exponent part \<open>e\<close>, optional sign, digits; it is read only when a digit follows.\<close>

definition read_exponent :: "string \<Rightarrow> int \<times> string" where
  "read_exponent r =
     (case r of
        [] \<Rightarrow> (0, r)
      | c # t \<Rightarrow>
          if c = CHR ''e'' \<or> c = CHR ''E''
          then (let (neg, t') = read_sign t; ds = takeWhile is_digit t'
                in if ds = [] then (0, r)
                   else ((if neg then - int (digits_val ds) else int (digits_val ds)),
                         dropWhile is_digit t'))
          else (0, r))"

text \<open>The longest prefix that is an unsigned decimal literal (\<open>12\<close>, \<open>12.\<close>, \<open>12.5\<close>,
  \<open>.5\<close>, each with an optional exponent), with its value and the rest of the string.\<close>

definition read_decimal :: "string \<Rightarrow> (rat \<times> string) option" where
  "read_decimal s =
     (let ip = takeWhile is_digit s; r1 = dropWhile is_digit s;
          (fp, r2) = (case r1 of
                        [] \<Rightarrow> ([], r1)
                      | c # t \<Rightarrow> if c = CHR ''.'' then (takeWhile is_digit t, dropWhile is_digit t)
                                 else ([], r1))
      in if ip = [] \<and> fp = [] then None
         else (let (e, r3) = read_exponent r2
               in Some (of_nat (digits_val (ip @ fp)) * pow10 (e - int (length fp)), r3)))"

definition parseFloat_str :: "string \<Rightarrow> numval" where
  "parseFloat_str s =
     (let (neg, r) = read_sign (trimStart s)
      in if starts_with r ''Infinity'' then Infinite neg
         else (case read_decimal r of
                 None \<Rightarrow> NotANumber
               | Some (v, rest) \<Rightarrow> Value (if neg then - v else v)))"

definition parseFloat :: "jsval \<Rightarrow> numval" where
  "parseFloat v = parseFloat_str (ToString v)"

definition isNaN :: "numval \<Rightarrow> bool" where
  "isNaN x = (x = NotANumber)"

text \<open>Digits of radix 2, 8, 10 and 16.\<close>

definition radix_digit :: "char \<Rightarrow> nat option" where
  "radix_digit c =
     (let n = (of_char c :: nat)
      in if 48 \<le> n \<and> n \<le> 57 then Some (n - 48)
         else if 97 \<le> n \<and> n \<le> 102 then Some (n - 87)
         else if 65 \<le> n \<and> n \<le> 70 then Some (n - 55)
         else None)"

definition is_radix_digit :: "nat \<Rightarrow> char \<Rightarrow> bool" where
  "is_radix_digit R c = (case radix_digit c of None \<Rightarrow> False | Some d \<Rightarrow> d < R)"

definition radix_val :: "nat \<Rightarrow> string \<Rightarrow> nat" where
  "radix_val R ds = foldl (\<lambda>a c. R * a + (case radix_digit c of None \<Rightarrow> 0 | Some d \<Rightarrow> d)) 0 ds"

text \<open>A hexadecimal, octal or binary integer literal: \<open>0x1F\<close>, \<open>0o17\<close>, \<open>0b101\<close>.\<close>

definition read_nondecimal :: "string \<Rightarrow> nat option" where
  "read_nondecimal t =
     (case t of
        z # p # d # ds \<Rightarrow>
          (let R = (if p = CHR ''x'' \<or> p = CHR ''X'' then 16
                    else if p = CHR ''o'' \<or> p = CHR ''O'' then 8
                    else if p = CHR ''b'' \<or> p = CHR ''B'' then 2 else (0::nat))
           in if z = CHR ''0'' \<and> R \<noteq> 0 \<and> list_all (is_radix_digit R) (d # ds)
              then Some (radix_val R (d # ds)) else None)
      | _ \<Rightarrow> None)"

text \<open>\<open>StringToNumber\<close>: the whole string, trimmed, must be a numeric literal; the empty
  string is 0.\<close>

definition StringToNumber :: "string \<Rightarrow> numval" where
  "StringToNumber s =
     (let t = trim s
      in if t = [] then Value 0
         else (case read_nondecimal t of
                 Some n \<Rightarrow> Value (of_nat n)
               | None \<Rightarrow>
                   (let (neg, r) = read_sign t
                    in if r = ''Infinity'' then Infinite neg
                       else (case read_decimal r of
                               None \<Rightarrow> NotANumber
                             | Some (v, rest) \<Rightarrow>
                                 if rest = [] then Value (if neg then - v else v) else NotANumber))))"

text \<open>A value rounds to a finite double when its magnitude is below
  \<open>2^1024 - 2^970\<close>, halfway between the largest double and \<open>2^1024\<close>; it rounds to a
  double above 0 when it is above \<open>2^-1075\<close>, half the smallest double.\<close>

definition rounds_to_finite :: "rat \<Rightarrow> bool" where
  "rounds_to_finite v = (\<bar>v\<bar> < 2 ^ 1024 - 2 ^ 970)"

definition rounds_above_zero :: "rat \<Rightarrow> bool" where
  "rounds_above_zero v = (1 / 2 ^ 1075 < v)"

fun num_isFinite :: "jsnum \<Rightarrow> bool" where
  "num_isFinite NaN = False"
| "num_isFinite PosInfinity = False"
| "num_isFinite NegInfinity = False"
| "num_isFinite x = True"

text \<open>The global \<open>isFinite\<close>: \<open>ToNumber\<close> of the argument is neither NaN nor infinite.\<close>

fun isFinite :: "jsval \<Rightarrow> bool" where
  "isFinite JUndefined = False"
| "isFinite JNull = True"
| "isFinite (JBool b) = True"
| "isFinite (JNum x) = num_isFinite x"
| "isFinite (JStr s) = (case StringToNumber s of Value v \<Rightarrow> rounds_to_finite v | _ \<Rightarrow> False)"

text \<open>\<open>parseInt\<close> with no radix: leading white space, a sign, \<open>0x\<close> for radix 16, then
  the longest run of digits; \<open>None\<close> is NaN. The integer is returned exact; it is only
  compared with small integers, which rounding to a double leaves in place.\<close>

definition parseInt_str :: "string \<Rightarrow> int option" where
  "parseInt_str s =
     (let (neg, r) = read_sign (trimStart s);
          hex = (starts_with r ''0x'' \<or> starts_with r ''0X'');
          R = (if hex then 16 else 10);
          r' = (if hex then drop 2 r else r);
          ds = takeWhile (is_radix_digit R) r'
      in if ds = [] then None
         else Some (if neg then - int (radix_val R ds) else int (radix_val R ds)))"

definition parseInt :: "jsval \<Rightarrow> int option" where
  "parseInt v = parseInt_str (ToString v)"

text \<open>\<open>x > 0\<close> for the Number that \<open>parseFloat\<close> returns.\<close>

fun gt_zero :: "numval \<Rightarrow> bool" where
  "gt_zero NotANumber = False"
| "gt_zero (Infinite neg) = (\<not> neg)"
| "gt_zero (Value v) = rounds_above_zero v"

subsection \<open>Method calls on a primitive\<close>

text \<open>\<open>v.toString()\<close> throws on \<open>null\<close> and \<open>undefined\<close>; \<open>v.trim()\<close>,
  \<open>v.replace(...)\<close> and \<open>v.toLowerCase()\<close> exist on strings only, and calling a
  property that is \<open>undefined\<close> throws a TypeError.\<close>

fun call_toString :: "jsval \<Rightarrow> js_error + string" where
  "call_toString JUndefined = Inl TypeError"
| "call_toString JNull = Inl TypeError"
| "call_toString v = Inr (ToString v)"

fun call_trim :: "jsval \<Rightarrow> js_error + string" where
  "call_trim (JStr s) = Inr (trim s)"
| "call_trim v = Inl TypeError"

text \<open>\<open>phone.replace(/\D/g, '')\<close>: every character that is not 0-9 is removed.\<close>

fun call_replace_nondigits :: "jsval \<Rightarrow> js_error + string" where
  "call_replace_nondigits (JStr s) = Inr (filter is_digit s)"
| "call_replace_nondigits v = Inl TypeError"

fun call_toLowerCase :: "jsval \<Rightarrow> js_error + string" where
  "call_toLowerCase (JStr s) = Inr (toLowerCase s)"
| "call_toLowerCase v = Inl TypeError"

section \<open>The validation module\<close>

text \<open>\<open>/^[a-zA-Z0-9._%+-]+@[a-zA-Z0-9.-]+\.[a-zA-Z]{2,}$/\<close>. Neither character class
  holds \<open>@\<close>, so the local part is the run before the first character outside
  its class; the last block holds letters only and follows a dot, so it is the run of
  letters at the end of the string.\<close>

definition is_email_local :: "char \<Rightarrow> bool" where
  "is_email_local c = (is_alpha c \<or> is_digit c \<or> c \<in> set ''._%+-'')"

definition is_email_domain :: "char \<Rightarrow> bool" where
  "is_email_domain c = (is_alpha c \<or> is_digit c \<or> c \<in> set ''.-'')"

definition emailRegex_test :: "string \<Rightarrow> bool" where
  "emailRegex_test s =
     (let localPart = takeWhile is_email_local s; r = dropWhile is_email_local s
      in localPart \<noteq> [] \<and>
         (case r of
            [] \<Rightarrow> False
          | c # d \<Rightarrow>
              c = CHR ''@'' \<and>
              (let tld = takeWhile is_alpha (rev d); pre = dropWhile is_alpha (rev d)
               in 2 \<le> length tld \<and>
                  (case pre of
                     [] \<Rightarrow> False
                   | dot # host \<Rightarrow> dot = CHR ''.'' \<and> host \<noteq> [] \<and> list_all is_email_domain host))))"

definition isValidEmail :: "jsval \<Rightarrow> js_error + bool" where
  "isValidEmail email =
     (if \<not> truthy email then Inr False
      else (case call_trim email of
              Inl e \<Rightarrow> Inl e
            | Inr t \<Rightarrow> Inr (emailRegex_test t)))"

definition isValidPhoneNumber :: "jsval \<Rightarrow> js_error + bool" where
  "isValidPhoneNumber phone =
     (if \<not> truthy phone then Inr False
      else (case call_replace_nondigits phone of
              Inl e \<Rightarrow> Inl e
            | Inr digitsOnly \<Rightarrow> Inr (10 \<le> length digitsOnly \<and> length digitsOnly \<le> 11)))"

definition isValidNumber :: "jsval \<Rightarrow> bool" where
  "isValidNumber v =
     (if v = JStr [] \<or> v = JNull \<or> v = JUndefined then False
      else \<not> isNaN (parseFloat v) \<and> isFinite v)"

definition isValidPositiveNumber :: "jsval \<Rightarrow> bool" where
  "isValidPositiveNumber v =
     (if \<not> isValidNumber v then False else gt_zero (parseFloat v))"

definition hasValidDecimals :: "jsval \<Rightarrow> int \<Rightarrow> js_error + bool" where
  "hasValidDecimals v maxDecimals =
     (if \<not> isValidNumber v then Inr False
      else (case call_toString v of
              Inl e \<Rightarrow> Inl e
            | Inr valueStr \<Rightarrow>
                (case indexOf valueStr CHR ''.'' of
                   None \<Rightarrow> Inr True
                 | Some decimalIndex \<Rightarrow>
                     (let decimals = substring valueStr (decimalIndex + 1)
                      in Inr (int (length decimals) \<le> maxDecimals)))))"

text \<open>\<open>minYear\<close> and \<open>maxYear\<close> are integral Numbers; the defaults of the source are
  1900 and the year after the current one, which is read from the clock.\<close>

definition isValidYear :: "jsval \<Rightarrow> int \<Rightarrow> int \<Rightarrow> bool" where
  "isValidYear year minYear maxYear =
     (if \<not> isValidNumber year then False
      else (case parseInt year of
              None \<Rightarrow> False
            | Some yearNum \<Rightarrow> minYear \<le> yearNum \<and> yearNum \<le> maxYear))"

definition isValidRating :: "jsval \<Rightarrow> bool" where
  "isValidRating rating =
     (if \<not> isValidNumber rating then False
      else (case parseInt rating of
              None \<Rightarrow> False
            | Some ratingNum \<Rightarrow> 1 \<le> ratingNum \<and> ratingNum \<le> 5))"

definition isRequired :: "jsval \<Rightarrow> js_error + bool" where
  "isRequired v =
     (if v = JNull \<or> v = JUndefined then Inr False
      else (case call_toString v of
              Inl e \<Rightarrow> Inl e
            | Inr s \<Rightarrow> Inr (0 < length (trim s))))"

text \<open>\<open>new Date(v)\<close> is the runtime's: outside the ISO format, what a string parses to
  is left to the implementation, and a string without a zone is read in the local zone.
  \<open>tv v\<close> is the time value of \<open>new Date(v)\<close> in milliseconds, \<open>None\<close> for an invalid
  date. Two dates compare by their time values, and no comparison with an invalid date
  holds.\<close>

definition isAfter :: "(jsval \<Rightarrow> int option) \<Rightarrow> jsval \<Rightarrow> jsval \<Rightarrow> bool" where
  "isAfter tv startDatetime endDatetime =
     (if \<not> truthy startDatetime \<or> \<not> truthy endDatetime then False
      else (case (tv startDatetime, tv endDatetime) of
              (Some start, Some end) \<Rightarrow> start < end
            | _ \<Rightarrow> False))"

text \<open>The messages that replace a constraint violation.\<close>

definition msg_customer :: string where
  "msg_customer = ''Cannot delete this customer because they have associated rides. Please delete the rides first.''"

definition msg_driver :: string where
  "msg_driver = ''Cannot delete this driver because they have associated vehicles or rides. Please delete those records first.''"

definition msg_vehicle :: string where
  "msg_vehicle = ''Cannot delete this vehicle because it has associated rides. Please delete the rides first.''"

definition msg_location :: string where
  "msg_location = ''Cannot delete this location because it is used in existing rides. Please delete those rides first.''"

definition msg_ride :: string where
  "msg_ride = ''Cannot delete this ride because it has associated payments or ratings. Please delete those records first.''"

definition msg_referenced :: string where
  "msg_referenced = ''Cannot delete this record because it is referenced by other records. Please delete the dependent records first.''"

definition msg_duplicate :: string where
  "msg_duplicate = ''This value already exists in the database. Please use a different value.''"

definition msg_unexpected :: string where
  "msg_unexpected = ''An unexpected error occurred''"

section \<open>Objects\<close>

text \<open>An error handed to \<open>getErrorMessage\<close> or to the response interceptor is a
  primitive or an object with named properties. Reading a property of \<open>null\<close> or
  \<open>undefined\<close> throws; reading one that is absent gives \<open>undefined\<close> (none of the
  names this code reads is a property of a string, a number or a boolean).\<close>

datatype jsobj = Prim jsval | Obj "(string \<times> jsobj) list"

fun truthy_obj :: "jsobj \<Rightarrow> bool" where
  "truthy_obj (Prim v) = truthy v"
| "truthy_obj (Obj kvs) = True"

fun get_prop :: "jsobj \<Rightarrow> string \<Rightarrow> js_error + jsobj" where
  "get_prop (Prim JUndefined) k = Inl TypeError"
| "get_prop (Prim JNull) k = Inl TypeError"
| "get_prop (Prim v) k = Inr (Prim JUndefined)"
| "get_prop (Obj kvs) k = Inr (case map_of kvs k of None \<Rightarrow> Prim JUndefined | Some v \<Rightarrow> v)"

definition bindE :: "'e + 'a \<Rightarrow> ('a \<Rightarrow> 'e + 'b) \<Rightarrow> 'e + 'b" where
  "bindE m f = (case m of Inl e \<Rightarrow> Inl e | Inr a \<Rightarrow> f a)"

text \<open>\<open>a || b\<close>.\<close>

definition or_else :: "jsobj \<Rightarrow> jsobj \<Rightarrow> jsobj" where
  "or_else a b = (if truthy_obj a then a else b)"

fun obj_toLowerCase :: "jsobj \<Rightarrow> js_error + string" where
  "obj_toLowerCase (Prim v) = call_toLowerCase v"
| "obj_toLowerCase (Obj kvs) = Inl TypeError"

text \<open>Once \<open>toLowerCase\<close> has returned, the message is a string; \<open>return errorMessage\<close>
  hands that string back.\<close>

definition formatForeignKeyError :: "jsobj \<Rightarrow> js_error + string" where
  "formatForeignKeyError errorMessage =
     (if \<not> truthy_obj errorMessage then Inr ''An error occurred''
      else bindE (obj_toLowerCase errorMessage) (\<lambda>lowerMsg.
        if str_includes lowerMsg ''foreign key'' \<or> str_includes lowerMsg ''constraint''
        then (if str_includes lowerMsg ''customer'' then Inr msg_customer
              else if str_includes lowerMsg ''driver'' then Inr msg_driver
              else if str_includes lowerMsg ''vehicle'' then Inr msg_vehicle
              else if str_includes lowerMsg ''location'' then Inr msg_location
              else if str_includes lowerMsg ''ride'' then Inr msg_ride
              else Inr msg_referenced)
        else if str_includes lowerMsg ''unique'' \<or> str_includes lowerMsg ''duplicate''
        then Inr msg_duplicate
        else (case errorMessage of Prim (JStr msg) \<Rightarrow> Inr msg | _ \<Rightarrow> Inl TypeError)))"

definition is_string :: "jsobj \<Rightarrow> bool" where
  "is_string v = (case v of Prim (JStr s) \<Rightarrow> True | _ \<Rightarrow> False)"

definition getErrorMessage :: "jsobj \<Rightarrow> js_error + string" where
  "getErrorMessage error =
     (if \<not> truthy_obj error then Inr msg_unexpected
      else bindE (get_prop error ''message'') (\<lambda>message.
        if truthy_obj message then formatForeignKeyError message
        else if is_string error then formatForeignKeyError error
        else bindE (get_prop error ''response'') (\<lambda>response.
          bindE (if truthy_obj response then get_prop response ''data'' else Inr response) (\<lambda>data.
            if truthy_obj response \<and> truthy_obj data
            then bindE (get_prop data ''error'') (\<lambda>err.
                   if truthy_obj err then formatForeignKeyError err
                   else bindE (get_prop data ''message'') (\<lambda>msg.
                     if truthy_obj msg then formatForeignKeyError msg
                     else Inr msg_unexpected))
            else Inr msg_unexpected))))"

section \<open>The API client\<close>

record axios_config =
  baseURL :: string
  headers :: "(string \<times> string) list"
  timeout :: nat

definition apiClient :: axios_config where
  "apiClient = \<lparr>baseURL = ''http://localhost:5000/api'',
                 headers = [(''Content-Type'', ''application/json'')],
                 timeout = 10000\<rparr>"

definition msg_network :: string where
  "msg_network = ''Network error. Please check your connection and ensure the backend server is running.''"

text \<open>The rejection handler of the response interceptor. It returns what it writes to the
  console, a label and a value, and the value the promise is rejected with, which is what
  the caller catches.\<close>

definition response_error_interceptor :: "jsobj \<Rightarrow> js_error + ((string \<times> jsobj) list \<times> jsobj)" where
  "response_error_interceptor error =
     bindE (get_prop error ''response'') (\<lambda>response.
       if truthy_obj response
       then bindE (get_prop response ''data'') (\<lambda>data.
              bindE (get_prop data ''error'') (\<lambda>err.
                bindE (get_prop response ''status'') (\<lambda>status.
                  bindE (get_prop data ''details'') (\<lambda>details.
                    Inr ([(''API Error:'', data)],
                         Obj [(''message'', or_else err (Prim (JStr ''An error occurred''))),
                              (''status'', status),
                              (''details'', details)])))))
       else bindE (get_prop error ''request'') (\<lambda>request.
              if truthy_obj request
              then Inr ([(''Network Error:'', request)],
                        Obj [(''message'', Prim (JStr msg_network)),
                             (''status'', Prim (JNum PosZero))])
              else bindE (get_prop error ''message'') (\<lambda>message.
                     Inr ([(''Request Error:'', message)],
                          Obj [(''message'', or_else message (Prim (JStr msg_unexpected))),
                               (''status'', Prim (JNum (Dec True 1 1)))]))))"

section \<open>Invocations\<close>

text \<open>
  The definitions of the validation module above take a primitive. A caller can hand an
  exported predicate any value, a Symbol included, and \<open>ToString\<close> and \<open>ToNumber\<close>
  throw a TypeError on a Symbol; so \<open>parseFloat\<close>, \<open>parseInt\<close>, \<open>isFinite\<close> and the
  \<open>Date\<close> constructor can throw. This section writes each predicate once more, as an
  invocation on any value: its outcome is what the call writes to the console (the one
  output channel of this code base besides its requests and state updates, used by the
  response interceptor) and either the error it throws or the value it returns. On a
  primitive the two definitions agree, which is proved below.
\<close>

datatype jsany = Plain jsval | Sym string

datatype effect = ConsoleError string jsobj

type_synonym 'a invocation = "effect list \<times> (js_error + 'a)"

definition js_return :: "'a \<Rightarrow> 'a invocation" where
  "js_return x = ([], Inr x)"

definition js_throw :: "js_error \<Rightarrow> 'a invocation" where
  "js_throw e = ([], Inl e)"

text \<open>\<open>console.error(label, v)\<close>.\<close>

definition console_error :: "string \<Rightarrow> jsobj \<Rightarrow> unit invocation" where
  "console_error label v = ([ConsoleError label v], Inr ())"

text \<open>Sequencing: what the first step wrote stays written; an error ends the call.\<close>

definition js_bind :: "'a invocation \<Rightarrow> ('a \<Rightarrow> 'b invocation) \<Rightarrow> 'b invocation" where
  "js_bind m f =
     (case m of
        (out, Inl e) \<Rightarrow> (out, Inl e)
      | (out, Inr a) \<Rightarrow> (case f a of (out', r) \<Rightarrow> (out @ out', r)))"

text \<open>A step of the primitive level, which writes nothing.\<close>

definition quiet :: "js_error + 'a \<Rightarrow> 'a invocation" where
  "quiet r = ([], r)"

fun any_truthy :: "jsany \<Rightarrow> bool" where
  "any_truthy (Plain v) = truthy v"
| "any_truthy (Sym d) = True"

fun any_ToString :: "jsany \<Rightarrow> string invocation" where
  "any_ToString (Plain v) = js_return (ToString v)"
| "any_ToString (Sym d) = js_throw TypeError"

definition any_parseFloat :: "jsany \<Rightarrow> numval invocation" where
  "any_parseFloat v = js_bind (any_ToString v) (\<lambda>s. js_return (parseFloat_str s))"

definition any_parseInt :: "jsany \<Rightarrow> int option invocation" where
  "any_parseInt v = js_bind (any_ToString v) (\<lambda>s. js_return (parseInt_str s))"

fun any_isFinite :: "jsany \<Rightarrow> bool invocation" where
  "any_isFinite (Plain v) = js_return (isFinite v)"
| "any_isFinite (Sym d) = js_throw TypeError"

text \<open>\<open>new Date(v)\<close>: a Symbol is neither a string nor convertible to a number.\<close>

fun any_new_Date :: "(jsval \<Rightarrow> int option) \<Rightarrow> jsany \<Rightarrow> int option invocation" where
  "any_new_Date tv (Plain v) = js_return (tv v)"
| "any_new_Date tv (Sym d) = js_throw TypeError"

text \<open>Method calls: a Symbol has \<open>toString\<close>, which prints its description, and
  neither \<open>trim\<close> nor \<open>replace\<close>.\<close>

fun any_call_toString :: "jsany \<Rightarrow> string invocation" where
  "any_call_toString (Plain v) = quiet (call_toString v)"
| "any_call_toString (Sym d) = js_return (''Symbol('' @ d @ '')'')"

fun any_call_trim :: "jsany \<Rightarrow> string invocation" where
  "any_call_trim (Plain v) = quiet (call_trim v)"
| "any_call_trim (Sym d) = js_throw TypeError"

fun any_call_replace_nondigits :: "jsany \<Rightarrow> string invocation" where
  "any_call_replace_nondigits (Plain v) = quiet (call_replace_nondigits v)"
| "any_call_replace_nondigits (Sym d) = js_throw TypeError"

definition invoke_isValidEmail :: "jsany \<Rightarrow> bool invocation" where
  "invoke_isValidEmail email =
     (if \<not> any_truthy email then js_return False
      else js_bind (any_call_trim email) (\<lambda>t. js_return (emailRegex_test t)))"

definition invoke_isValidPhoneNumber :: "jsany \<Rightarrow> bool invocation" where
  "invoke_isValidPhoneNumber phone =
     (if \<not> any_truthy phone then js_return False
      else js_bind (any_call_replace_nondigits phone) (\<lambda>digitsOnly.
             js_return (10 \<le> length digitsOnly \<and> length digitsOnly \<le> 11)))"

text \<open>\<open>!isNaN(parseFloat(value)) && isFinite(value)\<close>: \<open>isFinite\<close> is evaluated only
  when the left operand holds.\<close>

definition invoke_isValidNumber :: "jsany \<Rightarrow> bool invocation" where
  "invoke_isValidNumber v =
     (if v = Plain (JStr []) \<or> v = Plain JNull \<or> v = Plain JUndefined then js_return False
      else js_bind (any_parseFloat v) (\<lambda>f.
             if isNaN f then js_return False else any_isFinite v))"

definition invoke_isValidPositiveNumber :: "jsany \<Rightarrow> bool invocation" where
  "invoke_isValidPositiveNumber v =
     js_bind (invoke_isValidNumber v) (\<lambda>valid.
       if \<not> valid then js_return False
       else js_bind (any_parseFloat v) (\<lambda>f. js_return (gt_zero f)))"

definition invoke_hasValidDecimals :: "jsany \<Rightarrow> int \<Rightarrow> bool invocation" where
  "invoke_hasValidDecimals v maxDecimals =
     js_bind (invoke_isValidNumber v) (\<lambda>valid.
       if \<not> valid then js_return False
       else js_bind (any_call_toString v) (\<lambda>valueStr.
              (case indexOf valueStr CHR ''.'' of
                 None \<Rightarrow> js_return True
               | Some decimalIndex \<Rightarrow>
                   (let decimals = substring valueStr (decimalIndex + 1)
                    in js_return (int (length decimals) \<le> maxDecimals)))))"

definition invoke_isValidYear :: "jsany \<Rightarrow> int \<Rightarrow> int \<Rightarrow> bool invocation" where
  "invoke_isValidYear year minYear maxYear =
     js_bind (invoke_isValidNumber year) (\<lambda>valid.
       if \<not> valid then js_return False
       else js_bind (any_parseInt year) (\<lambda>parsed.
              js_return (case parsed of
                           None \<Rightarrow> False
                         | Some yearNum \<Rightarrow> minYear \<le> yearNum \<and> yearNum \<le> maxYear)))"

definition invoke_isValidRating :: "jsany \<Rightarrow> bool invocation" where
  "invoke_isValidRating rating =
     js_bind (invoke_isValidNumber rating) (\<lambda>valid.
       if \<not> valid then js_return False
       else js_bind (any_parseInt rating) (\<lambda>parsed.
              js_return (case parsed of
                           None \<Rightarrow> False
                         | Some ratingNum \<Rightarrow> 1 \<le> ratingNum \<and> ratingNum \<le> 5)))"

definition invoke_isAfter ::
  "(jsval \<Rightarrow> int option) \<Rightarrow> jsany \<Rightarrow> jsany \<Rightarrow> bool invocation" where
  "invoke_isAfter tv startDatetime endDatetime =
     (if \<not> any_truthy startDatetime \<or> \<not> any_truthy endDatetime then js_return False
      else js_bind (any_new_Date tv startDatetime) (\<lambda>startDate.
             js_bind (any_new_Date tv endDatetime) (\<lambda>endDate.
               js_return (case (startDate, endDate) of
                            (Some start, Some end) \<Rightarrow> start < end
                          | _ \<Rightarrow> False))))"

section \<open>The forms\<close>

text \<open>A form keeps one value per field. \<open>validateForm\<close> collects at most one message
  per field into \<open>newErrors\<close> and answers whether there is none; \<open>handleSubmit\<close>
  returns before the request when the answer is no. A form in edit mode updates the
  record it was opened on, otherwise it creates one.\<close>

datatype 'p api_call = Create 'p | Update jsval 'p

text \<open>\<open>a === b\<close> on primitives.\<close>

fun num_is_zero :: "jsnum \<Rightarrow> bool" where
  "num_is_zero PosZero = True"
| "num_is_zero NegZero = True"
| "num_is_zero x = False"

fun strict_eq :: "jsval \<Rightarrow> jsval \<Rightarrow> bool" where
  "strict_eq (JNum x) (JNum y) = (x \<noteq> NaN \<and> (x = y \<or> (num_is_zero x \<and> num_is_zero y)))"
| "strict_eq a b = (a = b)"

subsection \<open>The payment form\<close>

text \<open>The literal \<open>999999.99\<close> is the double \<open>4294967253050327 / 2^32\<close>, and the next
  double is \<open>2^-33\<close> above it. A value rounds to a double above the literal when it is
  above the point halfway between the two; the halfway point itself rounds to the literal.\<close>

definition rounds_above_999999_99 :: "rat \<Rightarrow> bool" where
  "rounds_above_999999_99 v = (17179869012201309 / 2 ^ 34 < v)"

fun gt_999999_99 :: "numval \<Rightarrow> bool" where
  "gt_999999_99 NotANumber = False"
| "gt_999999_99 (Infinite neg) = (\<not> neg)"
| "gt_999999_99 (Value v) = rounds_above_999999_99 v"

record payment_form =
  pay_ride_id :: jsval
  pay_amount :: jsval
  pay_method :: jsval
  pay_status :: jsval
  pay_date :: jsval

definition payment_amount_errors :: "jsval \<Rightarrow> js_error + (string \<times> string) list" where
  "payment_amount_errors amount =
     bindE (isRequired amount) (\<lambda>required.
       if \<not> required then Inr [(''amount'', ''Amount is required'')]
       else if \<not> isValidPositiveNumber amount
       then Inr [(''amount'', ''Amount must be a positive number'')]
       else bindE (hasValidDecimals amount 2) (\<lambda>decimals_ok.
         if \<not> decimals_ok then Inr [(''amount'', ''Amount must have at most 2 decimal places'')]
         else if gt_999999_99 (parseFloat amount)
         then Inr [(''amount'', ''Amount cannot exceed $999,999.99'')]
         else Inr []))"

definition PaymentForm_validateForm :: "payment_form \<Rightarrow> js_error + ((string \<times> string) list \<times> bool)" where
  "PaymentForm_validateForm formData =
     bindE (payment_amount_errors (pay_amount formData)) (\<lambda>amount_errors.
       bindE (isRequired (pay_date formData)) (\<lambda>date_required.
         (let newErrors =
                (if \<not> truthy (pay_ride_id formData) then [(''ride_id'', ''Please select a ride'')] else [])
                @ amount_errors
                @ (if \<not> truthy (pay_method formData)
                   then [(''payment_method'', ''Please select a payment method'')] else [])
                @ (if \<not> truthy (pay_status formData)
                   then [(''payment_status'', ''Please select a payment status'')] else [])
                @ (if \<not> date_required then [(''payment_date'', ''Payment date is required'')] else [])
          in Inr (newErrors, newErrors = []))))"

subsection \<open>The ride form\<close>

record ride_form =
  rf_customer_id :: jsval
  rf_driver_id :: jsval
  rf_vehicle_vin :: jsval
  rf_pickup_location :: jsval
  rf_dropoff_location :: jsval
  rf_start_time :: jsval
  rf_arrival_time :: jsval

definition RideForm_validateForm ::
  "(jsval \<Rightarrow> int option) \<Rightarrow> ride_form \<Rightarrow> js_error + ((string \<times> string) list \<times> bool)" where
  "RideForm_validateForm tv formData =
     bindE (isRequired (rf_start_time formData)) (\<lambda>start_required.
       bindE (isRequired (rf_arrival_time formData)) (\<lambda>arrival_required.
         (let newErrors =
                (if \<not> truthy (rf_customer_id formData)
                 then [(''customer_id'', ''Please select a customer'')] else [])
                @ (if \<not> truthy (rf_driver_id formData)
                   then [(''driver_id'', ''Please select a driver'')] else [])
                @ (if \<not> truthy (rf_vehicle_vin formData)
                   then [(''vehicle_vin'', ''Please select a vehicle'')] else [])
                @ (if \<not> truthy (rf_pickup_location formData)
                   then [(''pickup_location'', ''Please select a pickup location'')] else [])
                @ (if \<not> truthy (rf_dropoff_location formData)
                   then [(''dropoff_location'', ''Please select a dropoff location'')]
                   else if strict_eq (rf_pickup_location formData) (rf_dropoff_location formData)
                   then [(''dropoff_location'', ''Dropoff location must be different from pickup location'')]
                   else [])
                @ (if \<not> start_required then [(''start_time'', ''Start time is required'')] else [])
                @ (if \<not> arrival_required then [(''arrival_time'', ''Arrival time is required'')]
                   else if \<not> isAfter tv (rf_start_time formData) (rf_arrival_time formData)
                   then [(''arrival_time'', ''Arrival time must be after start time'')]
                   else [])
          in Inr (newErrors, newErrors = []))))"

text \<open>\<open>formatForBackend\<close> prints a time field through the local-time getters of
  \<open>Date\<close>, which are the runtime's. \<open>editing\<close> is the \<open>ride_id\<close> of the ride the form
  was opened on, \<open>None\<close> when it was opened to add one.\<close>

definition RideForm_handleSubmit ::
  "(jsval \<Rightarrow> int option) \<Rightarrow> (jsval \<Rightarrow> string) \<Rightarrow> jsval option \<Rightarrow> ride_form
     \<Rightarrow> js_error + ride_form api_call option" where
  "RideForm_handleSubmit tv formatForBackend editing formData =
     bindE (RideForm_validateForm tv formData) (\<lambda>(newErrors, valid).
       if \<not> valid then Inr None
       else (let submitData = formData
                   \<lparr>rf_start_time := JStr (formatForBackend (rf_start_time formData)),
                    rf_arrival_time := JStr (formatForBackend (rf_arrival_time formData))\<rparr>
             in (case editing of
                   Some ride_id \<Rightarrow> Inr (Some (Update ride_id submitData))
                 | None \<Rightarrow> Inr (Some (Create submitData)))))"

subsection \<open>The vehicle form\<close>

record vehicle_form =
  vf_vehicle_vin :: jsval
  vf_model :: jsval
  vf_color :: jsval
  vf_registration_year :: jsval
  vf_driver_id :: jsval

definition vehicle_vin_errors :: "jsval \<Rightarrow> js_error + (string \<times> string) list" where
  "vehicle_vin_errors vin =
     bindE (isRequired vin) (\<lambda>required.
       if \<not> required then Inr [(''vehicle_vin'', ''VIN is required'')]
       else bindE (call_trim vin) (\<lambda>trimmed.
         if length trimmed < 11 \<or> length trimmed > 17
         then Inr [(''vehicle_vin'', ''VIN must be between 11 and 17 characters'')]
         else Inr []))"

definition vehicle_model_errors :: "jsval \<Rightarrow> js_error + (string \<times> string) list" where
  "vehicle_model_errors model =
     bindE (isRequired model) (\<lambda>required.
       if \<not> required then Inr [(''model'', ''Model is required'')]
       else bindE (call_trim model) (\<lambda>trimmed.
         if length trimmed < 2
         then Inr [(''model'', ''Model must be at least 2 characters'')]
         else Inr []))"

text \<open>\<open>currentYear\<close> is \<open>new Date().getFullYear()\<close>, read from the clock; the message
  for the year quotes it.\<close>

definition VehicleForm_validateForm ::
  "int \<Rightarrow> vehicle_form \<Rightarrow> js_error + ((string \<times> string) list \<times> bool)" where
  "VehicleForm_validateForm currentYear formData =
     bindE (vehicle_vin_errors (vf_vehicle_vin formData)) (\<lambda>vin_errors.
       bindE (vehicle_model_errors (vf_model formData)) (\<lambda>model_errors.
         bindE (isRequired (vf_color formData)) (\<lambda>color_required.
           bindE (isRequired (vf_registration_year formData)) (\<lambda>year_required.
             (let newErrors =
                    vin_errors @ model_errors
                    @ (if \<not> color_required then [(''color'', ''Color is required'')] else [])
                    @ (if \<not> year_required
                       then [(''registration_year'', ''Registration year is required'')]
                       else if \<not> isValidYear (vf_registration_year formData) 1900 (currentYear + 1)
                       then [(''registration_year'',
                              ''Please enter a valid year between 1900 and ''
                                @ int_toString (currentYear + 1))]
                       else [])
                    @ (if \<not> truthy (vf_driver_id formData)
                       then [(''driver_id'', ''Please select a driver'')] else [])
              in Inr (newErrors, newErrors = []))))))"

text \<open>\<open>editing\<close> is the VIN of the vehicle the form was opened on.\<close>

definition VehicleForm_handleSubmit ::
  "int \<Rightarrow> jsval option \<Rightarrow> vehicle_form \<Rightarrow> js_error + vehicle_form api_call option" where
  "VehicleForm_handleSubmit currentYear editing formData =
     bindE (VehicleForm_validateForm currentYear formData) (\<lambda>(newErrors, valid).
       if \<not> valid then Inr None
       else (case editing of
               Some vehicle_vin \<Rightarrow> Inr (Some (Update vehicle_vin formData))
             | None \<Rightarrow> Inr (Some (Create formData))))"

section \<open>Notions used to state the properties\<close>

text \<open>A rational is an integer when it equals its floor.\<close>

definition is_integer :: "rat \<Rightarrow> bool" where
  "is_integer v = (of_int \<lfloor>v\<rfloor> = v)"

text \<open>The decimal a Number prints as, and how many digits it has after the point: with
  \<open>k\<close> digits in \<open>s\<close>, none of them a trailing zero, \<open>s * 10 ^ (n - k)\<close> has \<open>k - n\<close>
  of them when \<open>n < k\<close> and none otherwise.\<close>

fun num_decimal :: "jsnum \<Rightarrow> numval" where
  "num_decimal NaN = NotANumber"
| "num_decimal PosInfinity = Infinite False"
| "num_decimal NegInfinity = Infinite True"
| "num_decimal PosZero = Value 0"
| "num_decimal NegZero = Value 0"
| "num_decimal (Dec neg s n) =
     (let v = of_nat s * pow10 (n - int (length (dec_digits s))) in Value (if neg then - v else v))"

fun fraction_digits :: "jsnum \<Rightarrow> nat" where
  "fraction_digits (Dec neg s n) = nat (int (length (dec_digits s)) - n)"
| "fraction_digits x = 0"

text \<open>The smallest number of digits after the point that writes a rational exactly, when
  at most \<open>bound\<close> digits do.\<close>

fun decimals_needed :: "nat \<Rightarrow> rat \<Rightarrow> nat option" where
  "decimals_needed 0 v = (if is_integer v then Some 0 else None)"
| "decimals_needed (Suc b) v =
     (if is_integer v then Some 0
      else (case decimals_needed b (v * 10) of None \<Rightarrow> None | Some d \<Rightarrow> Some (Suc d)))"

text \<open>What \<open>v.k\<close> evaluates to where the read does not throw, and the values a
  message may hold for \<open>formatForeignKeyError\<close> to accept it: a string, or anything
  falsy.\<close>

definition prop_of :: "jsobj \<Rightarrow> string \<Rightarrow> jsobj" where
  "prop_of v k = (case get_prop v k of Inl e \<Rightarrow> Prim JUndefined | Inr x \<Rightarrow> x)"

definition string_or_falsy :: "jsobj \<Rightarrow> bool" where
  "string_or_falsy v = (is_string v \<or> \<not> truthy_obj v)"

text \<open>The message \<open>getErrorMessage\<close> picks is the first truthy one it meets: \<open>message\<close>;
  failing that, the input itself when it is a string; failing that, and with
  \<open>response\<close> and \<open>response.data\<close> truthy, \<open>response.data.error\<close> and then
  \<open>response.data.message\<close>. \<open>picks_non_string error\<close> says that the picked message
  exists and is not a string.\<close>

definition picks_non_string :: "jsobj \<Rightarrow> bool" where
  "picks_non_string error =
     (let message = prop_of error ''message'';
          response = prop_of error ''response'';
          data = prop_of response ''data'';
          err = prop_of data ''error'';
          msg = prop_of data ''message''
      in truthy_obj error \<and>
         ((truthy_obj message \<and> \<not> is_string message)
          \<or> (\<not> truthy_obj message \<and> \<not> is_string error \<and> truthy_obj response \<and> truthy_obj data
              \<and> ((truthy_obj err \<and> \<not> is_string err)
                  \<or> (\<not> truthy_obj err \<and> truthy_obj msg \<and> \<not> is_string msg)))))"

text \<open>No message is picked: the input is falsy, or it is not a string and none of the
  three is truthy where it is looked for.\<close>

definition picks_nothing :: "jsobj \<Rightarrow> bool" where
  "picks_nothing error =
     (let message = prop_of error ''message'';
          response = prop_of error ''response'';
          data = prop_of response ''data'';
          err = prop_of data ''error'';
          msg = prop_of data ''message''
      in \<not> truthy_obj error
         \<or> (\<not> truthy_obj message \<and> \<not> is_string error
             \<and> (\<not> truthy_obj response \<or> \<not> truthy_obj data
                 \<or> (\<not> truthy_obj err \<and> \<not> truthy_obj msg))))"

text \<open>The seven texts that \<open>formatForeignKeyError\<close> puts in place of a message.\<close>

definition fixed_texts :: "string set" where
  "fixed_texts = {msg_customer, msg_driver, msg_vehicle, msg_location, msg_ride,
                  msg_referenced, msg_duplicate}"

text \<open>The words that mark a message as a constraint violation.\<close>

definition mentions_constraint :: "string \<Rightarrow> bool" where
  "mentions_constraint msg =
     (str_includes (toLowerCase msg) ''foreign key'' \<or> str_includes (toLowerCase msg) ''constraint'')"

definition mentions_duplicate :: "string \<Rightarrow> bool" where
  "mentions_duplicate msg =
     (str_includes (toLowerCase msg) ''unique'' \<or> str_includes (toLowerCase msg) ''duplicate'')"

subsection \<open>A runtime for the examples\<close>

text \<open>The time value of a string of the form \<open>YYYY-MM-DDTHH:mm\<close>, which is what a
  \<open>datetime-local\<close> input holds, in a runtime whose local zone is UTC. On anything else
  this function answers \<open>None\<close>; it is used on strings of that form only.\<close>

definition days_in_month :: "int \<Rightarrow> int \<Rightarrow> int" where
  "days_in_month y m =
     (if m = 4 \<or> m = 6 \<or> m = 9 \<or> m = 11 then 30
      else if m = 2 then (if y mod 4 = 0 \<and> (y mod 100 \<noteq> 0 \<or> y mod 400 = 0) then 29 else 28)
      else 31)"

definition days_from_civil :: "int \<Rightarrow> int \<Rightarrow> int \<Rightarrow> int" where
  "days_from_civil y m d =
     (let y' = (if m \<le> 2 then y - 1 else y);
          era = y' div 400;
          yoe = y' - era * 400;
          mp = (m + 9) mod 12;
          doy = (153 * mp + 2) div 5 + d - 1;
          doe = yoe * 365 + yoe div 4 - yoe div 100 + doy
      in era * 146097 + doe - 719468)"

definition utc_minute_time :: "jsval \<Rightarrow> int option" where
  "utc_minute_time v =
     (case v of
        JStr s \<Rightarrow>
          (if length s = 16
              \<and> list_all is_digit (take 4 s @ take 2 (drop 5 s) @ take 2 (drop 8 s)
                                    @ take 2 (drop 11 s) @ take 2 (drop 14 s))
              \<and> s ! 4 = CHR ''-'' \<and> s ! 7 = CHR ''-'' \<and> s ! 10 = CHR ''T'' \<and> s ! 13 = CHR '':''
           then (let y = int (digits_val (take 4 s));
                     m = int (digits_val (take 2 (drop 5 s)));
                     d = int (digits_val (take 2 (drop 8 s)));
                     h = int (digits_val (take 2 (drop 11 s)));
                     mi = int (digits_val (take 2 (drop 14 s)))
                 in if 1 \<le> m \<and> m \<le> 12 \<and> 1 \<le> d \<and> d \<le> days_in_month y m \<and> h \<le> 23 \<and> mi \<le> 59
                    then Some (((days_from_civil y m d * 24 + h) * 60 + mi) * 60000)
                    else None)
           else None)
      | _ \<Rightarrow> None)"

text \<open>\<open>formatForBackend\<close> in the same runtime, on a string of that form: the year is
  printed as a number, without padding; month, day, hours and minutes are padded to
  the two digits they have in the string; the seconds are 0. The getters of an invalid
  date give NaN.\<close>

definition utc_formatForBackend :: "jsval \<Rightarrow> string" where
  "utc_formatForBackend v =
     (case v of
        JStr s \<Rightarrow>
          (if utc_minute_time v \<noteq> None
           then int_toString (int (digits_val (take 4 s))) @ ''-'' @ take 2 (drop 5 s)
                @ ''-'' @ take 2 (drop 8 s) @ ''T'' @ take 2 (drop 11 s)
                @ '':'' @ take 2 (drop 14 s) @ '':00''
           else ''NaN-NaN-NaNTNaN:NaN:NaN'')
      | _ \<Rightarrow> ''NaN-NaN-NaNTNaN:NaN:NaN'')"

section \<open>Properties\<close>

subsection \<open>Evaluation on concrete inputs\<close>

lemma rounds_to_finite_small: "\<bar>v\<bar> \<le> 2 ^ 64 \<Longrightarrow> rounds_to_finite v"
proof -
  assume a: "\<bar>v\<bar> \<le> 2 ^ 64"
  have "(2::rat) ^ 64 < 2 ^ 1024 - 2 ^ 970" by simp
  with a show ?thesis unfolding rounds_to_finite_def by linarith
qed

lemma rounds_above_zero_large: "1 / 2 ^ 64 \<le> v \<Longrightarrow> rounds_above_zero v"
proof -
  assume a: "1 / 2 ^ 64 \<le> v"
  have "(1::rat) / 2 ^ 1075 < 1 / 2 ^ 64" by simp
  with a show ?thesis unfolding rounds_above_zero_def by linarith
qed

lemmas char_eval = is_digit_def digit_val_def is_upper_def is_lower_def is_alpha_def is_ws_def
  digit_char_def char_of_def bit_Suc_0_iff radix_digit_def is_radix_digit_def

lemmas read_eval = read_sign_def read_exponent_def read_decimal_def parseFloat_str_def
  parseFloat_def isNaN_def read_nondecimal_def StringToNumber_def parseInt_str_def parseInt_def
  trimStart_def trim_def digits_val_def radix_val_def pow10_def Let_def
  rounds_to_finite_small rounds_above_zero_large

lemmas print_eval = num_digits_toString_def dec_digits.simps int_toString_def

lemmas validation_eval = isValidNumber_def isValidPositiveNumber_def hasValidDecimals_def
  isValidYear_def isValidRating_def isRequired_def substring_def


subsection \<open>Decimal digits read back\<close>

lemma of_char_digit_char: "d < 10 \<Longrightarrow> (of_char (digit_char d) :: nat) = 48 + d"
  by (simp add: digit_char_def)

lemma radix_digit_digit_char: "d < 10 \<Longrightarrow> radix_digit (digit_char d) = Some d"
  by (simp add: radix_digit_def of_char_digit_char)

lemma is_radix_digit_digit_char: "d < 10 \<Longrightarrow> is_radix_digit 10 (digit_char d)"
  by (simp add: is_radix_digit_def radix_digit_digit_char)

lemma dec_digits_all: "list_all (is_radix_digit 10) (dec_digits n)"
proof (induction n rule: dec_digits.induct)
  case (1 n)
  show ?case
  proof (cases "n < 10")
    case True
    then show ?thesis by (subst dec_digits.simps) (simp add: is_radix_digit_digit_char)
  next
    case False
    with 1 show ?thesis by (subst dec_digits.simps) (simp add: is_radix_digit_digit_char)
  qed
qed

lemma radix_val_snoc:
  "radix_val R (ds @ [c]) = R * radix_val R ds + (case radix_digit c of None \<Rightarrow> 0 | Some d \<Rightarrow> d)"
  by (simp add: radix_val_def)

lemma radix_val_dec_digits: "radix_val 10 (dec_digits n) = n"
proof (induction n rule: dec_digits.induct)
  case (1 n)
  show ?case
  proof (cases "n < 10")
    case True
    then show ?thesis
      by (subst dec_digits.simps) (simp add: radix_val_def radix_digit_digit_char)
  next
    case False
    with 1 show ?thesis
      by (subst dec_digits.simps) (simp add: radix_val_snoc radix_digit_digit_char)
  qed
qed

lemma dec_digits_hd: "\<exists>d ds. d < 10 \<and> dec_digits n = digit_char d # ds"
proof (induction n rule: dec_digits.induct)
  case (1 n)
  show ?case
  proof (cases "n < 10")
    case True
    then show ?thesis by (subst dec_digits.simps) auto
  next
    case False
    with 1 obtain d ds where "d < 10" "dec_digits (n div 10) = digit_char d # ds" by auto
    with False show ?thesis by (subst dec_digits.simps) auto
  qed
qed

lemma takeWhile_all: "list_all P xs \<Longrightarrow> takeWhile P xs = xs"
  by (induction xs) auto

lemma digit_char_facts:
  assumes "d < 10"
  shows "\<not> is_ws (digit_char d)" "digit_char d \<noteq> CHR ''-''" "digit_char d \<noteq> CHR ''+''"
proof -
  have c: "(of_char (digit_char d) :: nat) = 48 + d" using assms by (rule of_char_digit_char)
  show "\<not> is_ws (digit_char d)" using assms by (simp add: is_ws_def c)
  show "digit_char d \<noteq> CHR ''-''" using c by auto
  show "digit_char d \<noteq> CHR ''+''" using c by auto
qed

lemma digits_no_hex_prefix:
  assumes "list_all (is_radix_digit 10) cs"
  shows "\<not> starts_with cs ''0x''" "\<not> starts_with cs ''0X''"
proof -
  have "\<not> starts_with cs [CHR ''0'', p]" if p: "p = CHR ''x'' \<or> p = CHR ''X''" for p
  proof (cases cs)
    case Nil
    then show ?thesis by simp
  next
    case outer: (Cons c ds)
    show ?thesis
    proof (cases ds)
      case Nil
      with outer show ?thesis by simp
    next
      case (Cons e es)
      with outer assms have "is_radix_digit 10 e" by simp
      then have "e \<noteq> CHR ''x''" "e \<noteq> CHR ''X''"
        by (auto simp: is_radix_digit_def radix_digit_def)
      with outer Cons p show ?thesis by auto
    qed
  qed
  then show "\<not> starts_with cs ''0x''" "\<not> starts_with cs ''0X''" by auto
qed

lemma parseInt_str_digits:
  "parseInt_str ((if neg then ''-'' else []) @ dec_digits m)
     = Some (if neg then - int m else int m)"
proof -
  obtain d ds where d: "d < 10" and eq: "dec_digits m = digit_char d # ds"
    using dec_digits_hd by blast
  have all: "list_all (is_radix_digit 10) (digit_char d # ds)"
    using dec_digits_all [of m] eq by simp
  note nohex = digits_no_hex_prefix [OF all]
  have val: "radix_val 10 (digit_char d # ds) = m"
    using radix_val_dec_digits [of m] eq by simp
  have ws: "\<not> is_ws CHR ''-''" by (simp add: is_ws_def)
  show ?thesis
    unfolding eq parseInt_str_def trimStart_def read_sign_def
    using digit_char_facts [OF d] nohex all val ws
    by (simp add: Let_def takeWhile_all is_radix_digit_digit_char d del: starts_with.simps)
qed

lemma parseInt_int_toString: "parseInt (JStr (int_toString i)) = Some i"
  using parseInt_str_digits [of "i < 0" "nat \<bar>i\<bar>"]
  by (simp add: parseInt_def int_toString_def)

subsection \<open>Ratings\<close>

text \<open>
  C1, as the specification states it, fails: \<open>isValidRating\<close> accepts \<open>3.5\<close>, the
  string and the Number, and 3.5 is not an integer.
\<close>

theorem isValidRating_accepts_fraction:
  "isValidRating (JStr ''3.5'') \<and> StringToNumber ''3.5'' = Value (7 / 2)
   \<and> isValidRating (JNum (Dec False 35 1)) \<and> num_toString (Dec False 35 1) = ''3.5''
   \<and> \<not> is_integer (7 / 2)"
proof (intro conjI)
  show "isValidRating (JStr ''3.5'')"
    by (simp add: validation_eval read_eval char_eval)
  show "StringToNumber ''3.5'' = Value (7 / 2)"
    by (simp add: read_eval char_eval)
  show "isValidRating (JNum (Dec False 35 1))"
    by (simp add: validation_eval read_eval char_eval print_eval)
  show "num_toString (Dec False 35 1) = ''3.5''"
    by (simp add: char_eval print_eval)
  show "\<not> is_integer (7 / 2)"
    by code_simp
qed

lemma isValidRating_small:
  assumes "1 \<le> i" "i \<le> 5"
  shows "isValidRating (JStr (int_toString i))"
proof -
  from assms have "i = 1 \<or> i = 2 \<or> i = 3 \<or> i = 4 \<or> i = 5" by arith
  then show ?thesis
    by (elim disjE) (simp_all add: validation_eval read_eval char_eval print_eval)
qed

text \<open>
  C1, amended: \<open>isValidRating r\<close> holds exactly when \<open>r\<close> is a valid finite number
  (\<open>isValidNumber\<close>) and the integer that \<open>parseInt\<close> reads at its start lies in [1,5].
  So an integer written in decimal notation is accepted exactly when it lies in [1,5],
  while a value need not be an integer to be accepted. \<open>isValidRating(0)\<close> is false,
  \<open>isValidRating(5)\<close> is true and \<open>isValidRating(6)\<close> is false.
\<close>

theorem isValidRating_integer_prefix:
  "(isValidRating r \<longleftrightarrow> isValidNumber r \<and> (\<exists>n. parseInt r = Some n \<and> 1 \<le> n \<and> n \<le> 5))
   \<and> (isValidRating (JStr (int_toString i)) \<longleftrightarrow> 1 \<le> i \<and> i \<le> 5)
   \<and> isValidRating (JNum PosZero) = False
   \<and> isValidRating (JNum (Dec False 5 1)) = True
   \<and> isValidRating (JNum (Dec False 6 1)) = False"
proof (intro conjI)
  show "isValidRating r \<longleftrightarrow> isValidNumber r \<and> (\<exists>n. parseInt r = Some n \<and> 1 \<le> n \<and> n \<le> 5)"
    by (auto simp: isValidRating_def split: option.splits)
  show "isValidRating (JStr (int_toString i)) \<longleftrightarrow> 1 \<le> i \<and> i \<le> 5"
  proof
    assume "isValidRating (JStr (int_toString i))"
    then show "1 \<le> i \<and> i \<le> 5"
      by (simp add: isValidRating_def parseInt_int_toString split: if_splits)
  next
    assume "1 \<le> i \<and> i \<le> 5"
    then show "isValidRating (JStr (int_toString i))"
      using isValidRating_small by blast
  qed
  show "isValidRating (JNum PosZero) = False"
    by (simp add: validation_eval read_eval char_eval print_eval)
  show "isValidRating (JNum (Dec False 5 1)) = True"
    by (simp add: validation_eval read_eval char_eval print_eval)
  show "isValidRating (JNum (Dec False 6 1)) = False"
    by (simp add: validation_eval read_eval char_eval print_eval)
qed

subsection \<open>Decimal places\<close>

text \<open>
  C9: the Number \<open>1e-7\<close> is positive and is written with seven digits after the point
  as a decimal, its string form \<open>1e-7\<close> is in exponential notation and holds no point,
  and \<open>hasValidDecimals(1e-7, 2)\<close> returns true.
\<close>

theorem hasValidDecimals_exponent_form:
  "num_decimal (Dec False 1 (- 6)) = Value (1 / 10 ^ 7)
   \<and> fraction_digits (Dec False 1 (- 6)) = 7
   \<and> decimals_needed 10 (1 / 10 ^ 7) = Some 7
   \<and> num_toString (Dec False 1 (- 6)) = ''1e-7''
   \<and> indexOf ''1e-7'' CHR ''.'' = None
   \<and> hasValidDecimals (JNum (Dec False 1 (- 6))) 2 = Inr True"
proof (intro conjI)
  show "num_decimal (Dec False 1 (- 6)) = Value (1 / 10 ^ 7)"
    by (simp add: read_eval char_eval print_eval)
  show "fraction_digits (Dec False 1 (- 6)) = 7"
    by (simp add: char_eval print_eval)
  show "decimals_needed 10 (1 / 10 ^ 7) = Some 7"
    by code_simp
  show "num_toString (Dec False 1 (- 6)) = ''1e-7''"
    by (simp add: char_eval print_eval)
  show "indexOf ''1e-7'' CHR ''.'' = None"
    by simp
  show "hasValidDecimals (JNum (Dec False 1 (- 6))) 2 = Inr True"
    by (simp add: validation_eval read_eval char_eval print_eval)
qed

lemmas time_eval = utc_minute_time_def days_from_civil_def days_in_month_def digits_val_def
  digit_val_def is_digit_def Let_def

lemma utc_0800: "utc_minute_time (JStr ''2024-01-01T08:00'') = Some 1704096000000"
  by (simp add: time_eval)

lemma utc_0930: "utc_minute_time (JStr ''2024-01-01T09:30'') = Some 1704101400000"
  by (simp add: time_eval)

subsection \<open>The predicates return a boolean\<close>

text \<open>
  C3, as the specification states it, fails for numbers: \<open>isValidEmail(5)\<close> and
  \<open>isValidPhoneNumber(5)\<close> throw a TypeError, since a Number has neither \<open>trim\<close>
  nor \<open>replace\<close>.
\<close>

theorem string_predicates_throw_on_number:
  "isValidEmail (JNum (Dec False 5 1)) = Inl TypeError
   \<and> isValidPhoneNumber (JNum (Dec False 5 1)) = Inl TypeError"
  by (simp add: isValidEmail_def isValidPhoneNumber_def)

lemma isValidNumber_not_nullish: "isValidNumber v \<Longrightarrow> v \<noteq> JUndefined \<and> v \<noteq> JNull"
  by (auto simp: isValidNumber_def)

lemma call_toString_defined:
  "v \<noteq> JUndefined \<Longrightarrow> v \<noteq> JNull \<Longrightarrow> call_toString v = Inr (ToString v)"
  by (cases v) simp_all

lemma hasValidDecimals_total: "\<exists>b. hasValidDecimals v m = Inr b"
proof (cases "isValidNumber v")
  case False
  then show ?thesis by (auto simp: hasValidDecimals_def)
next
  case True
  then have "call_toString v = Inr (ToString v)"
    using isValidNumber_not_nullish call_toString_defined by blast
  with True show ?thesis
    by (auto simp: hasValidDecimals_def bindE_def Let_def split: option.splits)
qed

lemma isRequired_total: "\<exists>b. isRequired v = Inr b"
  by (cases v) (auto simp: isRequired_def)

lemmas invocation_defs = js_return_def js_throw_def js_bind_def quiet_def

lemma invoke_isValidNumber_plain: "invoke_isValidNumber (Plain v) = js_return (isValidNumber v)"
  by (cases v)
     (simp_all add: invoke_isValidNumber_def isValidNumber_def any_parseFloat_def parseFloat_def
        invocation_defs)

lemma invoke_isValidPositiveNumber_plain:
  "invoke_isValidPositiveNumber (Plain v) = js_return (isValidPositiveNumber v)"
  by (simp add: invoke_isValidPositiveNumber_def invoke_isValidNumber_plain
      isValidPositiveNumber_def any_parseFloat_def parseFloat_def invocation_defs)

lemma invoke_isValidYear_plain:
  "invoke_isValidYear (Plain v) lo hi = js_return (isValidYear v lo hi)"
  by (simp add: invoke_isValidYear_def invoke_isValidNumber_plain isValidYear_def
      any_parseInt_def parseInt_def invocation_defs)

lemma invoke_isValidRating_plain: "invoke_isValidRating (Plain v) = js_return (isValidRating v)"
  by (simp add: invoke_isValidRating_def invoke_isValidNumber_plain isValidRating_def
      any_parseInt_def parseInt_def invocation_defs)

lemma invoke_isAfter_plain:
  "invoke_isAfter tv (Plain a) (Plain b) = js_return (isAfter tv a b)"
  by (simp add: invoke_isAfter_def isAfter_def invocation_defs)

lemma invoke_hasValidDecimals_plain:
  "invoke_hasValidDecimals (Plain v) m = quiet (hasValidDecimals v m)"
proof (cases "isValidNumber v")
  case False
  then show ?thesis
    by (simp add: invoke_hasValidDecimals_def invoke_isValidNumber_plain hasValidDecimals_def
        invocation_defs)
next
  case True
  then have "call_toString v = Inr (ToString v)"
    using isValidNumber_not_nullish call_toString_defined by blast
  with True show ?thesis
    by (simp add: invoke_hasValidDecimals_def invoke_isValidNumber_plain hasValidDecimals_def
        invocation_defs Let_def split: option.splits)
qed

lemma invoke_isValidEmail_plain: "invoke_isValidEmail (Plain v) = quiet (isValidEmail v)"
  by (cases "call_trim v")
     (simp_all add: invoke_isValidEmail_def isValidEmail_def invocation_defs)

lemma invoke_isValidPhoneNumber_plain:
  "invoke_isValidPhoneNumber (Plain v) = quiet (isValidPhoneNumber v)"
  by (cases "call_replace_nondigits v")
     (simp_all add: invoke_isValidPhoneNumber_def isValidPhoneNumber_def invocation_defs)

lemma invoke_throws_on_symbol:
  "invoke_isValidNumber (Sym d) = ([], Inl TypeError)"
  "invoke_isValidRating (Sym d) = ([], Inl TypeError)"
  "invoke_isValidYear (Sym d) lo hi = ([], Inl TypeError)"
  "invoke_isValidPositiveNumber (Sym d) = ([], Inl TypeError)"
  "invoke_hasValidDecimals (Sym d) m = ([], Inl TypeError)"
  "invoke_isAfter tv (Sym d) b = (if any_truthy b then ([], Inl TypeError) else ([], Inr False))"
  "invoke_isValidEmail (Sym d) = ([], Inl TypeError)"
  "console_error label v \<noteq> js_return ()"
  by (simp_all add: invoke_isValidNumber_def invoke_isValidRating_def invoke_isValidYear_def
      invoke_isValidPositiveNumber_def invoke_hasValidDecimals_def invoke_isAfter_def
      invoke_isValidEmail_def any_parseFloat_def console_error_def invocation_defs)

text \<open>
  C3, amended. Invoked on any string, each of the seven predicates writes nothing, does
  not throw and returns a boolean. Invoked on any number, \<open>isValidYear\<close>,
  \<open>isValidRating\<close>, \<open>isValidPositiveNumber\<close>, \<open>hasValidDecimals\<close> and \<open>isAfter\<close> do
  the same; \<open>isValidEmail\<close> and \<open>isValidPhoneNumber\<close>, which are documented to take a
  string, write nothing, return false on 0 and NaN and throw a TypeError on every other
  number. (\<open>isValidYear\<close> with its default bound reads the current year, passed here as
  an argument.)
\<close>

theorem validation_predicates_total:
  "(\<exists>b. invoke_isValidEmail (Plain (JStr s)) = ([], Inr b))
   \<and> (\<exists>b. invoke_isValidPhoneNumber (Plain (JStr s)) = ([], Inr b))
   \<and> (\<exists>b. invoke_isValidYear (Plain (JStr s)) lo hi = ([], Inr b))
   \<and> (\<exists>b. invoke_isValidRating (Plain (JStr s)) = ([], Inr b))
   \<and> (\<exists>b. invoke_isValidPositiveNumber (Plain (JStr s)) = ([], Inr b))
   \<and> (\<exists>b. invoke_hasValidDecimals (Plain (JStr s)) m = ([], Inr b))
   \<and> (\<exists>b. invoke_isAfter tv (Plain (JStr s)) (Plain (JStr s')) = ([], Inr b))
   \<and> (\<exists>b. invoke_isValidYear (Plain (JNum x)) lo hi = ([], Inr b))
   \<and> (\<exists>b. invoke_isValidRating (Plain (JNum x)) = ([], Inr b))
   \<and> (\<exists>b. invoke_isValidPositiveNumber (Plain (JNum x)) = ([], Inr b))
   \<and> (\<exists>b. invoke_hasValidDecimals (Plain (JNum x)) m = ([], Inr b))
   \<and> (\<exists>b. invoke_isAfter tv (Plain (JNum x)) (Plain (JNum x')) = ([], Inr b))
   \<and> (\<exists>b. invoke_isAfter tv (Plain (JStr s)) (Plain (JNum x)) = ([], Inr b))
   \<and> (\<exists>b. invoke_isAfter tv (Plain (JNum x)) (Plain (JStr s)) = ([], Inr b))
   \<and> invoke_isValidEmail (Plain (JNum x))
       = ([], if truthy (JNum x) then Inl TypeError else Inr False)
   \<and> invoke_isValidPhoneNumber (Plain (JNum x))
       = ([], if truthy (JNum x) then Inl TypeError else Inr False)"
proof -
  have dec: "\<exists>b. invoke_hasValidDecimals (Plain v) m = ([], Inr b)" for v
    using hasValidDecimals_total [of v m]
    by (auto simp: invoke_hasValidDecimals_plain quiet_def)
  have email: "\<exists>b. invoke_isValidEmail (Plain (JStr s)) = ([], Inr b)"
    by (auto simp: invoke_isValidEmail_plain isValidEmail_def quiet_def)
  have phone: "\<exists>b. invoke_isValidPhoneNumber (Plain (JStr s)) = ([], Inr b)"
    by (auto simp: invoke_isValidPhoneNumber_plain isValidPhoneNumber_def quiet_def)
  have email_num: "invoke_isValidEmail (Plain (JNum x))
       = ([], if truthy (JNum x) then Inl TypeError else Inr False)"
    by (simp add: invoke_isValidEmail_plain isValidEmail_def quiet_def)
  have phone_num: "invoke_isValidPhoneNumber (Plain (JNum x))
       = ([], if truthy (JNum x) then Inl TypeError else Inr False)"
    by (simp add: invoke_isValidPhoneNumber_plain isValidPhoneNumber_def quiet_def)
  show ?thesis
    using dec email phone email_num phone_num
    by (simp add: invoke_isValidYear_plain invoke_isValidRating_plain
        invoke_isValidPositiveNumber_plain invoke_isAfter_plain js_return_def)
qed

theorem validation_predicates_total_witness:
  "invoke_isValidEmail (Plain (JStr ''ann@example.com'')) = ([], Inr True)
   \<and> invoke_isValidEmail (Plain (JNum (Dec False 5 1))) = ([], Inl TypeError)
   \<and> invoke_isValidPhoneNumber (Plain (JNum PosZero)) = ([], Inr False)
   \<and> invoke_isValidRating (Plain (JNum (Dec False 5 1))) = ([], Inr True)
   \<and> invoke_isAfter utc_minute_time (Plain (JStr ''2024-01-01T08:00''))
        (Plain (JStr ''2024-01-01T09:30'')) = ([], Inr True)
   \<and> invoke_isAfter utc_minute_time (Plain (JStr [])) (Plain (JStr ''2024-01-01T09:30''))
       = ([], Inr False)"
proof (intro conjI)
  note total = validation_predicates_total
  from total [of "''ann@example.com''"]
  obtain b where b: "invoke_isValidEmail (Plain (JStr ''ann@example.com'')) = ([], Inr b)"
    by blast
  have "isValidEmail (JStr ''ann@example.com'') = Inr True"
    by (simp add: isValidEmail_def trim_def emailRegex_test_def is_email_local_def
        is_email_domain_def char_eval Let_def)
  with b show "invoke_isValidEmail (Plain (JStr ''ann@example.com'')) = ([], Inr True)"
    by (simp add: invoke_isValidEmail_plain quiet_def)
  from total [of _ _ _ _ _ _ "Dec False 5 1"]
  show "invoke_isValidEmail (Plain (JNum (Dec False 5 1))) = ([], Inl TypeError)"
    by simp
  from total [of _ _ _ _ _ _ PosZero]
  show "invoke_isValidPhoneNumber (Plain (JNum PosZero)) = ([], Inr False)"
    by simp
  from total [of _ _ _ _ _ _ "Dec False 5 1"]
  obtain r where "invoke_isValidRating (Plain (JNum (Dec False 5 1))) = ([], Inr r)"
    by blast
  moreover have "isValidRating (JNum (Dec False 5 1))"
    by (simp add: validation_eval read_eval char_eval print_eval)
  ultimately show "invoke_isValidRating (Plain (JNum (Dec False 5 1))) = ([], Inr True)"
    by (simp add: invoke_isValidRating_plain js_return_def)
  from total [of "''2024-01-01T08:00''" _ _ _ utc_minute_time "''2024-01-01T09:30''"]
  obtain a where "invoke_isAfter utc_minute_time (Plain (JStr ''2024-01-01T08:00''))
        (Plain (JStr ''2024-01-01T09:30'')) = ([], Inr a)"
    by blast
  then show "invoke_isAfter utc_minute_time (Plain (JStr ''2024-01-01T08:00''))
        (Plain (JStr ''2024-01-01T09:30'')) = ([], Inr True)"
    by (simp add: invoke_isAfter_plain js_return_def isAfter_def utc_0800 utc_0930)
  from total [of "[]" _ _ _ utc_minute_time "''2024-01-01T09:30''"]
  obtain c where "invoke_isAfter utc_minute_time (Plain (JStr [])) (Plain (JStr ''2024-01-01T09:30''))
       = ([], Inr c)"
    by blast
  then show "invoke_isAfter utc_minute_time (Plain (JStr [])) (Plain (JStr ''2024-01-01T09:30''))
       = ([], Inr False)"
    by (simp add: invoke_isAfter_plain js_return_def isAfter_def)
qed

subsection \<open>Date ordering\<close>

text \<open>
  C4: \<open>isAfter(a, b)\<close> is true exactly when both arguments are truthy, both give a
  valid date and the second date is strictly later than the first. When the two dates
  are equal it is false, as for \<open>isAfter("2024-01-01T08:00", "2024-01-01T08:00")\<close>,
  whatever the runtime reads the string as.
\<close>

theorem isAfter_strict:
  "(isAfter tv a b \<longleftrightarrow>
      truthy a \<and> truthy b \<and> (\<exists>s e. tv a = Some s \<and> tv b = Some e \<and> s < e))
   \<and> (tv a = tv b \<longrightarrow> \<not> isAfter tv a b)
   \<and> \<not> isAfter tv (JStr ''2024-01-01T08:00'') (JStr ''2024-01-01T08:00'')"
  by (auto simp: isAfter_def split: option.splits)

theorem isAfter_strict_witness:
  "utc_minute_time (JStr ''2024-01-01T08:00'') = utc_minute_time (JStr ''2024-01-01T08:00'')
   \<and> \<not> isAfter utc_minute_time (JStr ''2024-01-01T08:00'') (JStr ''2024-01-01T08:00'')
   \<and> isAfter utc_minute_time (JStr ''2024-01-01T08:00'') (JStr ''2024-01-01T09:30'')
   \<and> \<not> isAfter utc_minute_time (JStr ''2024-01-01T09:30'') (JStr ''2024-01-01T08:00'')"
  using isAfter_strict [of utc_minute_time "JStr ''2024-01-01T08:00''" "JStr ''2024-01-01T08:00''"]
    isAfter_strict [of utc_minute_time "JStr ''2024-01-01T08:00''" "JStr ''2024-01-01T09:30''"]
    isAfter_strict [of utc_minute_time "JStr ''2024-01-01T09:30''" "JStr ''2024-01-01T08:00''"]
  by (simp add: utc_0800 utc_0930)

subsection \<open>The ride form\<close>

lemma strict_eq_same: "truthy v \<Longrightarrow> strict_eq v v"
  by (cases v) auto

lemma RideForm_validateForm_result:
  "\<exists>errs. RideForm_validateForm tv fd = Inr (errs, errs = [])"
proof -
  obtain b1 where b1: "isRequired (rf_start_time fd) = Inr b1"
    using isRequired_total by blast
  obtain b2 where b2: "isRequired (rf_arrival_time fd) = Inr b2"
    using isRequired_total by blast
  show ?thesis
    unfolding RideForm_validateForm_def bindE_def b1 b2 Let_def by simp
qed

lemma RideForm_validateForm_accepts:
  assumes "RideForm_validateForm tv fd = Inr (errs, True)"
  shows "truthy (rf_dropoff_location fd)"
    and "\<not> strict_eq (rf_pickup_location fd) (rf_dropoff_location fd)"
    and "isAfter tv (rf_start_time fd) (rf_arrival_time fd)"
proof -
  obtain b1 where b1: "isRequired (rf_start_time fd) = Inr b1"
    using isRequired_total by blast
  obtain b2 where b2: "isRequired (rf_arrival_time fd) = Inr b2"
    using isRequired_total by blast
  from assms have e: "errs = []"
    "(if \<not> truthy (rf_dropoff_location fd)
      then [(''dropoff_location'', ''Please select a dropoff location'')]
      else if strict_eq (rf_pickup_location fd) (rf_dropoff_location fd)
      then [(''dropoff_location'', ''Dropoff location must be different from pickup location'')]
      else []) = []"
    "(if \<not> b2 then [(''arrival_time'', ''Arrival time is required'')]
      else if \<not> isAfter tv (rf_start_time fd) (rf_arrival_time fd)
      then [(''arrival_time'', ''Arrival time must be after start time'')]
      else []) = []"
    unfolding RideForm_validateForm_def bindE_def b1 b2 Let_def by auto
  from e(2) show "truthy (rf_dropoff_location fd)" by (auto split: if_splits)
  from e(2) show "\<not> strict_eq (rf_pickup_location fd) (rf_dropoff_location fd)"
    by (auto split: if_splits)
  from e(3) show "isAfter tv (rf_start_time fd) (rf_arrival_time fd)"
    by (auto split: if_splits)
qed

lemma RideForm_handleSubmit_cases:
  obtains (blocked) errs where "errs \<noteq> []" "RideForm_validateForm tv fd = Inr (errs, False)"
      "RideForm_handleSubmit tv fmt editing fd = Inr None"
  | (sent) "RideForm_validateForm tv fd = Inr ([], True)"
      "RideForm_handleSubmit tv fmt editing fd =
         Inr (Some (let p = fd\<lparr>rf_start_time := JStr (fmt (rf_start_time fd)),
                                 rf_arrival_time := JStr (fmt (rf_arrival_time fd))\<rparr>
                    in case editing of Some k \<Rightarrow> Update k p | None \<Rightarrow> Create p))"
proof -
  obtain errs where r: "RideForm_validateForm tv fd = Inr (errs, errs = [])"
    using RideForm_validateForm_result by blast
  show thesis
  proof (cases "errs = []")
    case True
    with r have "RideForm_validateForm tv fd = Inr ([], True)" by simp
    moreover from this have "RideForm_handleSubmit tv fmt editing fd =
         Inr (Some (let p = fd\<lparr>rf_start_time := JStr (fmt (rf_start_time fd)),
                                 rf_arrival_time := JStr (fmt (rf_arrival_time fd))\<rparr>
                    in case editing of Some k \<Rightarrow> Update k p | None \<Rightarrow> Create p))"
      by (simp add: RideForm_handleSubmit_def bindE_def Let_def split: option.splits)
    ultimately show thesis by (rule sent)
  next
    case False
    with r have v: "RideForm_validateForm tv fd = Inr (errs, False)" by simp
    then have "RideForm_handleSubmit tv fmt editing fd = Inr None"
      by (simp add: RideForm_handleSubmit_def bindE_def)
    with False v show thesis by (rule blocked)
  qed
qed

text \<open>
  What the ride form's validation does ensure. When the two location fields hold the same
  value, or are equal by \<open>===\<close>, or the arrival time is not strictly after the start
  time, \<open>validateForm\<close> records an error and returns false and \<open>handleSubmit\<close> issues
  no call. Whenever \<open>handleSubmit\<close> issues a call, the arrival time of the form is a valid
  date strictly after its start time and the two location fields differ as values; the
  submitted data is the form with its two times reformatted.
\<close>

lemma RideForm_strict_equality_guard:
  "((rf_pickup_location fd = rf_dropoff_location fd
      \<or> strict_eq (rf_pickup_location fd) (rf_dropoff_location fd)
      \<or> \<not> isAfter tv (rf_start_time fd) (rf_arrival_time fd))
     \<longrightarrow> (\<exists>errs. errs \<noteq> [] \<and> RideForm_validateForm tv fd = Inr (errs, False))
         \<and> RideForm_handleSubmit tv fmt editing fd = Inr None)
   \<and> (RideForm_handleSubmit tv fmt editing fd = Inr (Some call)
     \<longrightarrow> (\<exists>s e. tv (rf_start_time fd) = Some s \<and> tv (rf_arrival_time fd) = Some e \<and> s < e)
         \<and> rf_pickup_location fd \<noteq> rf_dropoff_location fd
         \<and> \<not> strict_eq (rf_pickup_location fd) (rf_dropoff_location fd)
         \<and> (\<exists>p. (call = Create p \<or> (\<exists>k. call = Update k p))
                \<and> p = fd\<lparr>rf_start_time := JStr (fmt (rf_start_time fd)),
                         rf_arrival_time := JStr (fmt (rf_arrival_time fd))\<rparr>
                \<and> rf_pickup_location p \<noteq> rf_dropoff_location p))"
proof (cases rule: RideForm_handleSubmit_cases [of tv fd fmt editing])
  case (blocked errs)
  then show ?thesis by auto
next
  case sent
  note acc = RideForm_validateForm_accepts [OF sent(1)]
  from acc(1,2) have ne: "rf_pickup_location fd \<noteq> rf_dropoff_location fd"
    using strict_eq_same by metis
  from acc(3) have ord:
    "\<exists>s e. tv (rf_start_time fd) = Some s \<and> tv (rf_arrival_time fd) = Some e \<and> s < e"
    by (auto simp: isAfter_def split: option.splits if_splits)
  from sent(2) ne acc ord show ?thesis
    by (cases editing) (auto simp: Let_def)
qed

lemmas ride_eval = RideForm_handleSubmit_def RideForm_validateForm_def bindE_def isAfter_def
  utc_formatForBackend_def

text \<open>
  C5 fails on the code. The form is opened on ride 12, whose pickup location is the
  Number 3 of the record; the dropoff location is then picked from the select, which
  gives the String \<open>3\<close>. The comparison \<open>===\<close> of a Number with a String is false, so
  \<open>validateForm\<close> returns true with no error and \<open>handleSubmit\<close> issues the update call
  for a ride whose pickup and dropoff are both location 3.
\<close>

theorem RideForm_sends_same_location:
  "\<not> strict_eq (JNum (Dec False 3 1)) (JStr ''3'')
   \<and> ToString (JNum (Dec False 3 1)) = ''3'' \<and> ToString (JStr ''3'') = ''3''
   \<and> RideForm_validateForm utc_minute_time
        \<lparr>rf_customer_id = JNum (Dec False 1 1), rf_driver_id = JNum (Dec False 2 1),
         rf_vehicle_vin = JStr ''1HGBH41JXMN109186'',
         rf_pickup_location = JNum (Dec False 3 1), rf_dropoff_location = JStr ''3'',
         rf_start_time = JStr ''2024-01-01T08:00'', rf_arrival_time = JStr ''2024-01-01T09:30''\<rparr>
       = Inr ([], True)
   \<and> RideForm_handleSubmit utc_minute_time utc_formatForBackend (Some (JNum (Dec False 12 2)))
        \<lparr>rf_customer_id = JNum (Dec False 1 1), rf_driver_id = JNum (Dec False 2 1),
         rf_vehicle_vin = JStr ''1HGBH41JXMN109186'',
         rf_pickup_location = JNum (Dec False 3 1), rf_dropoff_location = JStr ''3'',
         rf_start_time = JStr ''2024-01-01T08:00'', rf_arrival_time = JStr ''2024-01-01T09:30''\<rparr>
       = Inr (Some (Update (JNum (Dec False 12 2))
           \<lparr>rf_customer_id = JNum (Dec False 1 1), rf_driver_id = JNum (Dec False 2 1),
            rf_vehicle_vin = JStr ''1HGBH41JXMN109186'',
            rf_pickup_location = JNum (Dec False 3 1), rf_dropoff_location = JStr ''3'',
            rf_start_time = JStr ''2024-01-01T08:00:00'',
            rf_arrival_time = JStr ''2024-01-01T09:30:00''\<rparr>))"
proof (intro conjI)
  have req: "isRequired (JStr ''2024-01-01T08:00'') = Inr True"
    "isRequired (JStr ''2024-01-01T09:30'') = Inr True"
    by (simp_all add: isRequired_def trim_def is_ws_def)
  show "\<not> strict_eq (JNum (Dec False 3 1)) (JStr ''3'')" by simp
  show "ToString (JNum (Dec False 3 1)) = ''3''" by (simp add: char_eval print_eval)
  show "ToString (JStr ''3'') = ''3''" by simp
  show "RideForm_validateForm utc_minute_time
        \<lparr>rf_customer_id = JNum (Dec False 1 1), rf_driver_id = JNum (Dec False 2 1),
         rf_vehicle_vin = JStr ''1HGBH41JXMN109186'',
         rf_pickup_location = JNum (Dec False 3 1), rf_dropoff_location = JStr ''3'',
         rf_start_time = JStr ''2024-01-01T08:00'', rf_arrival_time = JStr ''2024-01-01T09:30''\<rparr>
       = Inr ([], True)"
    by (simp add: ride_eval req utc_0800 utc_0930)
  show "RideForm_handleSubmit utc_minute_time utc_formatForBackend (Some (JNum (Dec False 12 2)))
        \<lparr>rf_customer_id = JNum (Dec False 1 1), rf_driver_id = JNum (Dec False 2 1),
         rf_vehicle_vin = JStr ''1HGBH41JXMN109186'',
         rf_pickup_location = JNum (Dec False 3 1), rf_dropoff_location = JStr ''3'',
         rf_start_time = JStr ''2024-01-01T08:00'', rf_arrival_time = JStr ''2024-01-01T09:30''\<rparr>
       = Inr (Some (Update (JNum (Dec False 12 2))
           \<lparr>rf_customer_id = JNum (Dec False 1 1), rf_driver_id = JNum (Dec False 2 1),
            rf_vehicle_vin = JStr ''1HGBH41JXMN109186'',
            rf_pickup_location = JNum (Dec False 3 1), rf_dropoff_location = JStr ''3'',
            rf_start_time = JStr ''2024-01-01T08:00:00'',
            rf_arrival_time = JStr ''2024-01-01T09:30:00''\<rparr>))"
    by (simp add: ride_eval req utc_0800 utc_0930 digits_val_def char_eval print_eval)
qed

subsection \<open>The vehicle form\<close>

lemma bindE_Inr_iff: "bindE m f = Inr r \<longleftrightarrow> (\<exists>a. m = Inr a \<and> f a = Inr r)"
  by (cases m) (simp_all add: bindE_def)

lemma vehicle_vin_errors_empty:
  assumes "vehicle_vin_errors vin = Inr []"
  shows "\<exists>s. vin = JStr s \<and> 11 \<le> length (trim s) \<and> length (trim s) \<le> 17"
proof -
  from assms obtain trimmed where t: "call_trim vin = Inr trimmed"
    and len: "\<not> (length trimmed < 11 \<or> length trimmed > 17)"
    by (auto simp: vehicle_vin_errors_def bindE_Inr_iff split: if_splits)
  from t obtain s where "vin = JStr s" "trimmed = trim s" by (cases vin) auto
  with len show ?thesis by auto
qed

lemma vehicle_vin_errors_bad_length:
  assumes "length (trim s) < 11 \<or> 17 < length (trim s)"
  shows "\<exists>msg. vehicle_vin_errors (JStr s) = Inr [(''vehicle_vin'', msg)]"
  using assms by (auto simp: vehicle_vin_errors_def isRequired_def bindE_def)

lemma vehicle_model_errors_string: "\<exists>errs. vehicle_model_errors (JStr m) = Inr errs"
  by (auto simp: vehicle_model_errors_def isRequired_def bindE_def)

text \<open>
  C10: the vehicle form issues a create or update call only when the VIN is a string
  whose trimmed length is between 11 and 17. For a VIN whose trimmed length is below 11 or
  above 17, \<open>handleSubmit\<close> never issues a call, and any result \<open>validateForm\<close> returns
  is false with an error recorded for \<open>vehicle_vin\<close>; it does return whenever the model
  field holds a string, and \<open>handleSubmit\<close> then returns before the request.
\<close>

theorem VehicleForm_vin_length:
  "(VehicleForm_handleSubmit cy editing fd = Inr (Some call)
     \<longrightarrow> (\<exists>s. vf_vehicle_vin fd = JStr s \<and> 11 \<le> length (trim s) \<and> length (trim s) \<le> 17))
   \<and> (vf_vehicle_vin fd = JStr s \<and> (length (trim s) < 11 \<or> 17 < length (trim s))
     \<longrightarrow> VehicleForm_handleSubmit cy editing fd \<noteq> Inr (Some call)
         \<and> (VehicleForm_validateForm cy fd = Inr (errs, ok)
              \<longrightarrow> \<not> ok \<and> ''vehicle_vin'' \<in> fst ` set errs)
         \<and> (vf_model fd = JStr m
              \<longrightarrow> (\<exists>es. VehicleForm_validateForm cy fd = Inr (es, False))
                  \<and> VehicleForm_handleSubmit cy editing fd = Inr None))"
proof (intro conjI impI)
  assume sub: "VehicleForm_handleSubmit cy editing fd = Inr (Some call)"
  then obtain es where v: "VehicleForm_validateForm cy fd = Inr (es, True)"
    unfolding VehicleForm_handleSubmit_def bindE_Inr_iff by (auto split: if_splits)
  then obtain ve where "vehicle_vin_errors (vf_vehicle_vin fd) = Inr ve" "ve = []"
    unfolding VehicleForm_validateForm_def bindE_Inr_iff Let_def by auto
  then show "\<exists>s. vf_vehicle_vin fd = JStr s \<and> 11 \<le> length (trim s) \<and> length (trim s) \<le> 17"
    using vehicle_vin_errors_empty by blast
next
  assume bad: "vf_vehicle_vin fd = JStr s \<and> (length (trim s) < 11 \<or> 17 < length (trim s))"
  then obtain msg where ve: "vehicle_vin_errors (vf_vehicle_vin fd) = Inr [(''vehicle_vin'', msg)]"
    using vehicle_vin_errors_bad_length by force
  have res: "\<not> ok' \<and> ''vehicle_vin'' \<in> fst ` set errs'"
    if "VehicleForm_validateForm cy fd = Inr (errs', ok')" for errs' ok'
    using that unfolding VehicleForm_validateForm_def bindE_Inr_iff Let_def ve by auto
  show "VehicleForm_handleSubmit cy editing fd \<noteq> Inr (Some call)"
  proof
    assume "VehicleForm_handleSubmit cy editing fd = Inr (Some call)"
    then obtain es where "VehicleForm_validateForm cy fd = Inr (es, True)"
      unfolding VehicleForm_handleSubmit_def bindE_Inr_iff by (auto split: if_splits)
    with res show False by blast
  qed
  { assume "VehicleForm_validateForm cy fd = Inr (errs, ok)"
    with res show "\<not> ok" by blast }
  { assume "VehicleForm_validateForm cy fd = Inr (errs, ok)"
    with res show "''vehicle_vin'' \<in> fst ` set errs" by blast }
  { assume m: "vf_model fd = JStr m"
    obtain me where me: "vehicle_model_errors (vf_model fd) = Inr me"
      using vehicle_model_errors_string m by force
    obtain b1 where b1: "isRequired (vf_color fd) = Inr b1" using isRequired_total by blast
    obtain b2 where b2: "isRequired (vf_registration_year fd) = Inr b2"
      using isRequired_total by blast
    have "\<exists>es ok'. VehicleForm_validateForm cy fd = Inr (es, ok')"
      unfolding VehicleForm_validateForm_def bindE_def ve me b1 b2 Let_def by auto
    with res have ex: "\<exists>es. VehicleForm_validateForm cy fd = Inr (es, False)"
      by (metis (full_types))
    then show "\<exists>es. VehicleForm_validateForm cy fd = Inr (es, False)" .
    from ex show "VehicleForm_handleSubmit cy editing fd = Inr None"
      by (auto simp: VehicleForm_handleSubmit_def bindE_def) }
qed

lemmas vehicle_eval = VehicleForm_handleSubmit_def VehicleForm_validateForm_def
  vehicle_vin_errors_def vehicle_model_errors_def bindE_def

theorem VehicleForm_vin_length_witness:
  "VehicleForm_handleSubmit 2024 None
     \<lparr>vf_vehicle_vin = JStr ''1HGBH41JXMN109186'', vf_model = JStr ''Toyota Camry'',
      vf_color = JStr ''Black'', vf_registration_year = JStr ''2020'', vf_driver_id = JStr ''1''\<rparr>
   = Inr (Some (Create
     \<lparr>vf_vehicle_vin = JStr ''1HGBH41JXMN109186'', vf_model = JStr ''Toyota Camry'',
      vf_color = JStr ''Black'', vf_registration_year = JStr ''2020'', vf_driver_id = JStr ''1''\<rparr>))
   \<and> length (trim ''1HGBH41JXMN109186'') = 17
   \<and> length (trim '' 1HGBH41JXM  '') = 10
   \<and> VehicleForm_handleSubmit 2024 None
     \<lparr>vf_vehicle_vin = JStr '' 1HGBH41JXM  '', vf_model = JStr ''Toyota Camry'',
      vf_color = JStr ''Black'', vf_registration_year = JStr ''2020'', vf_driver_id = JStr ''1''\<rparr>
   = Inr None
   \<and> VehicleForm_validateForm 2024
     \<lparr>vf_vehicle_vin = JStr '' 1HGBH41JXM  '', vf_model = JStr ''Toyota Camry'',
      vf_color = JStr ''Black'', vf_registration_year = JStr ''2020'', vf_driver_id = JStr ''1''\<rparr>
   = Inr ([(''vehicle_vin'', ''VIN must be between 11 and 17 characters'')], False)
   \<and> ''vehicle_vin'' \<in> fst ` set [(''vehicle_vin'', ''VIN must be between 11 and 17 characters'')]"
proof (intro conjI)
  let ?ok = "\<lparr>vf_vehicle_vin = JStr ''1HGBH41JXMN109186'', vf_model = JStr ''Toyota Camry'',
      vf_color = JStr ''Black'', vf_registration_year = JStr ''2020'', vf_driver_id = JStr ''1''\<rparr>"
  let ?short = "\<lparr>vf_vehicle_vin = JStr '' 1HGBH41JXM  '', vf_model = JStr ''Toyota Camry'',
      vf_color = JStr ''Black'', vf_registration_year = JStr ''2020'', vf_driver_id = JStr ''1''\<rparr>"
  show sent: "VehicleForm_handleSubmit 2024 None ?ok = Inr (Some (Create ?ok))"
    by (simp add: vehicle_eval validation_eval read_eval char_eval)
  from sent VehicleForm_vin_length [of 2024 None ?ok "Create ?ok"]
  have "11 \<le> length (trim ''1HGBH41JXMN109186'') \<and> length (trim ''1HGBH41JXMN109186'') \<le> 17"
    by simp
  moreover have "length (trim ''1HGBH41JXMN109186'') = 17"
    by (simp add: trim_def is_ws_def)
  ultimately show "length (trim ''1HGBH41JXMN109186'') = 17" by simp
  show len: "length (trim '' 1HGBH41JXM  '') = 10"
    by (simp add: trim_def is_ws_def)
  have "vf_vehicle_vin ?short = JStr '' 1HGBH41JXM  ''
        \<and> (length (trim '' 1HGBH41JXM  '') < 11 \<or> 17 < length (trim '' 1HGBH41JXM  ''))"
    using len by simp
  moreover have "vf_model ?short = JStr ''Toyota Camry''" by simp
  ultimately show "VehicleForm_handleSubmit 2024 None ?short = Inr None"
    using VehicleForm_vin_length [of 2024 None ?short _ " '' 1HGBH41JXM  ''" _ _ "''Toyota Camry''"]
    by blast
  show rejected: "VehicleForm_validateForm 2024 ?short
      = Inr ([(''vehicle_vin'', ''VIN must be between 11 and 17 characters'')], False)"
    by (simp add: vehicle_eval validation_eval read_eval char_eval)
  have "vf_vehicle_vin ?short = JStr '' 1HGBH41JXM  ''
        \<and> (length (trim '' 1HGBH41JXM  '') < 11 \<or> 17 < length (trim '' 1HGBH41JXM  ''))"
    using len by simp
  with rejected
    VehicleForm_vin_length [of 2024 None ?short _ " '' 1HGBH41JXM  ''"
      "[(''vehicle_vin'', ''VIN must be between 11 and 17 characters'')]" False]
  show "''vehicle_vin'' \<in> fst ` set [(''vehicle_vin'', ''VIN must be between 11 and 17 characters'')]"
    by blast
qed

subsection \<open>Payment amounts\<close>

lemmas payment_eval = PaymentForm_validateForm_def payment_amount_errors_def bindE_def
  rounds_above_999999_99_def

text \<open>
  C2 fails on the code: the amount \<open>1e-7\<close>, typed into the payment form, passes
  \<open>isRequired\<close>, \<open>isValidPositiveNumber\<close>, \<open>hasValidDecimals\<close> with 2 and the upper
  bound, so the form is valid; the amount is \<open>0.0000001\<close>, which needs seven digits
  after the point.
\<close>

theorem PaymentForm_accepts_exponent_amount:
  "isRequired (JStr ''1e-7'') = Inr True
   \<and> isValidPositiveNumber (JStr ''1e-7'')
   \<and> hasValidDecimals (JStr ''1e-7'') 2 = Inr True
   \<and> \<not> gt_999999_99 (parseFloat (JStr ''1e-7''))
   \<and> PaymentForm_validateForm
        \<lparr>pay_ride_id = JStr ''1'', pay_amount = JStr ''1e-7'', pay_method = JStr ''Cash'',
         pay_status = JStr ''Completed'', pay_date = JStr ''2024-01-15''\<rparr> = Inr ([], True)
   \<and> parseFloat (JStr ''1e-7'') = Value (1 / 10 ^ 7)
   \<and> decimals_needed 10 (1 / 10 ^ 7) = Some 7"
proof (intro conjI)
  show "isRequired (JStr ''1e-7'') = Inr True"
    by (simp add: validation_eval read_eval char_eval)
  show "isValidPositiveNumber (JStr ''1e-7'')"
    by (simp add: validation_eval read_eval char_eval)
  show "hasValidDecimals (JStr ''1e-7'') 2 = Inr True"
    by (simp add: validation_eval read_eval char_eval)
  show "\<not> gt_999999_99 (parseFloat (JStr ''1e-7''))"
    by (simp add: payment_eval read_eval char_eval)
  show "PaymentForm_validateForm
        \<lparr>pay_ride_id = JStr ''1'', pay_amount = JStr ''1e-7'', pay_method = JStr ''Cash'',
         pay_status = JStr ''Completed'', pay_date = JStr ''2024-01-15''\<rparr> = Inr ([], True)"
    by (simp add: payment_eval validation_eval read_eval char_eval)
  show "parseFloat (JStr ''1e-7'') = Value (1 / 10 ^ 7)"
    by (simp add: read_eval char_eval)
  show "decimals_needed 10 (1 / 10 ^ 7) = Some 7"
    by code_simp
qed

subsection \<open>Error messages\<close>

lemmas msg_defs = msg_customer_def msg_driver_def msg_vehicle_def msg_location_def msg_ride_def
  msg_referenced_def msg_duplicate_def

lemma fixed_messages_plain:
  "\<not> mentions_constraint msg_customer" "\<not> mentions_constraint msg_driver"
  "\<not> mentions_constraint msg_vehicle" "\<not> mentions_constraint msg_location"
  "\<not> mentions_constraint msg_ride" "\<not> mentions_constraint msg_referenced"
  "\<not> mentions_duplicate msg_duplicate"
  by code_simp+

lemma str_includes_nonempty: "str_includes s p \<Longrightarrow> p \<noteq> [] \<Longrightarrow> s \<noteq> []"
  by (cases s) auto

lemma mentions_nonempty:
  "mentions_constraint msg \<Longrightarrow> msg \<noteq> []" "mentions_duplicate msg \<Longrightarrow> msg \<noteq> []"
  by (auto simp: mentions_constraint_def mentions_duplicate_def toLowerCase_def)

lemma formatForeignKeyError_string:
  "formatForeignKeyError (Prim (JStr msg)) =
     (if msg = [] then Inr ''An error occurred''
      else if mentions_constraint msg
      then (if str_includes (toLowerCase msg) ''customer'' then Inr msg_customer
            else if str_includes (toLowerCase msg) ''driver'' then Inr msg_driver
            else if str_includes (toLowerCase msg) ''vehicle'' then Inr msg_vehicle
            else if str_includes (toLowerCase msg) ''location'' then Inr msg_location
            else if str_includes (toLowerCase msg) ''ride'' then Inr msg_ride
            else Inr msg_referenced)
      else if mentions_duplicate msg then Inr msg_duplicate
      else Inr msg)"
  by (simp add: formatForeignKeyError_def bindE_def mentions_constraint_def mentions_duplicate_def)

text \<open>
  C6, as the specification states it, fails: the message of a delete that dependents
  block, \<open>ORA-02292: integrity constraint violated - child record found\<close>, reaches the
  caller as the fixed text for a record that is referenced by others, both from
  \<open>formatForeignKeyError\<close> and through the interceptor and \<open>getErrorMessage\<close>.
\<close>

theorem constraint_message_replaced:
  "formatForeignKeyError
     (Prim (JStr ''ORA-02292: integrity constraint violated - child record found''))
     = Inr msg_referenced
   \<and> msg_referenced \<noteq> ''ORA-02292: integrity constraint violated - child record found''
   \<and> response_error_interceptor
        (Obj [(''response'',
               Obj [(''data'',
                     Obj [(''success'', Prim (JBool False)),
                          (''error'',
                           Prim (JStr ''ORA-02292: integrity constraint violated - child record found''))]),
                    (''status'', Prim (JNum (Dec False 4 3)))])])
      = Inr ([(''API Error:'',
               Obj [(''success'', Prim (JBool False)),
                    (''error'',
                     Prim (JStr ''ORA-02292: integrity constraint violated - child record found''))])],
             Obj [(''message'',
                   Prim (JStr ''ORA-02292: integrity constraint violated - child record found'')),
                  (''status'', Prim (JNum (Dec False 4 3))),
                  (''details'', Prim JUndefined)])
   \<and> getErrorMessage
        (Obj [(''message'',
               Prim (JStr ''ORA-02292: integrity constraint violated - child record found'')),
              (''status'', Prim (JNum (Dec False 4 3))),
              (''details'', Prim JUndefined)])
      = Inr msg_referenced"
proof (intro conjI)
  let ?m = "''ORA-02292: integrity constraint violated - child record found''"
  have m: "mentions_constraint ?m" by code_simp
  have n: "\<not> str_includes (toLowerCase ?m) ''customer''"
    "\<not> str_includes (toLowerCase ?m) ''driver''"
    "\<not> str_includes (toLowerCase ?m) ''vehicle''"
    "\<not> str_includes (toLowerCase ?m) ''location''"
    "\<not> str_includes (toLowerCase ?m) ''ride''"
    by code_simp+
  show f: "formatForeignKeyError (Prim (JStr ?m)) = Inr msg_referenced"
    unfolding formatForeignKeyError_string using m n by simp
  show "msg_referenced \<noteq> ?m"
    by (simp add: msg_referenced_def)
  show "response_error_interceptor
        (Obj [(''response'',
               Obj [(''data'',
                     Obj [(''success'', Prim (JBool False)), (''error'', Prim (JStr ?m))]),
                    (''status'', Prim (JNum (Dec False 4 3)))])])
      = Inr ([(''API Error:'',
               Obj [(''success'', Prim (JBool False)), (''error'', Prim (JStr ?m))])],
             Obj [(''message'', Prim (JStr ?m)),
                  (''status'', Prim (JNum (Dec False 4 3))),
                  (''details'', Prim JUndefined)])"
    by (simp add: response_error_interceptor_def bindE_def or_else_def)
  show "getErrorMessage
        (Obj [(''message'', Prim (JStr ?m)),
              (''status'', Prim (JNum (Dec False 4 3))),
              (''details'', Prim JUndefined)])
      = Inr msg_referenced"
    by (simp add: getErrorMessage_def bindE_def f)
qed

text \<open>
  C6, amended. A constraint-violation message is not reported verbatim. A message that
  holds one of the marker words \<open>foreign key\<close>, \<open>constraint\<close>, \<open>unique\<close> or
  \<open>duplicate\<close>, in any letter case, is replaced by one of the fixed user-friendly texts
  of \<open>formatForeignKeyError\<close>, and what the caller sees differs from the message. Only a
  non-empty message with none of these words reaches the caller unmodified.
\<close>

theorem formatForeignKeyError_replaces_marked:
  "(mentions_constraint msg \<or> mentions_duplicate msg
     \<longrightarrow> (\<exists>r. formatForeignKeyError (Prim (JStr msg)) = Inr r \<and> r \<noteq> msg \<and> r \<in> fixed_texts
              \<and> getErrorMessage (Obj [(''message'', Prim (JStr msg))]) = Inr r))
   \<and> (msg \<noteq> [] \<and> \<not> mentions_constraint msg \<and> \<not> mentions_duplicate msg
     \<longrightarrow> formatForeignKeyError (Prim (JStr msg)) = Inr msg
         \<and> getErrorMessage (Obj [(''message'', Prim (JStr msg))]) = Inr msg)"
proof (intro conjI impI)
  assume marked: "mentions_constraint msg \<or> mentions_duplicate msg"
  then have ne: "msg \<noteq> []" using mentions_nonempty by blast
  have g: "getErrorMessage (Obj [(''message'', Prim (JStr msg))])
             = formatForeignKeyError (Prim (JStr msg))"
    using ne by (simp add: getErrorMessage_def bindE_def)
  show "\<exists>r. formatForeignKeyError (Prim (JStr msg)) = Inr r \<and> r \<noteq> msg \<and> r \<in> fixed_texts
              \<and> getErrorMessage (Obj [(''message'', Prim (JStr msg))]) = Inr r"
  proof (cases "mentions_constraint msg")
    case True
    with fixed_messages_plain have
      "msg_customer \<noteq> msg" "msg_driver \<noteq> msg" "msg_vehicle \<noteq> msg" "msg_location \<noteq> msg"
      "msg_ride \<noteq> msg" "msg_referenced \<noteq> msg"
      by auto
    with True ne show ?thesis
      unfolding g formatForeignKeyError_string by (simp add: fixed_texts_def)
  next
    case False
    with marked have d: "mentions_duplicate msg" by simp
    with fixed_messages_plain have "msg_duplicate \<noteq> msg" by auto
    with False d ne show ?thesis
      unfolding g formatForeignKeyError_string by (simp add: fixed_texts_def)
  qed
next
  assume p: "msg \<noteq> [] \<and> \<not> mentions_constraint msg \<and> \<not> mentions_duplicate msg"
  then show f: "formatForeignKeyError (Prim (JStr msg)) = Inr msg"
    unfolding formatForeignKeyError_string by simp
  from p show "getErrorMessage (Obj [(''message'', Prim (JStr msg))]) = Inr msg"
    by (simp add: getErrorMessage_def bindE_def f)
qed

theorem formatForeignKeyError_replaces_marked_witness:
  "mentions_constraint ''ORA-02292: integrity constraint violated - child record found''
   \<and> formatForeignKeyError
        (Prim (JStr ''ORA-02292: integrity constraint violated - child record found''))
       \<noteq> Inr ''ORA-02292: integrity constraint violated - child record found''
   \<and> mentions_duplicate ''Duplicate entry for email''
   \<and> formatForeignKeyError (Prim (JStr ''Duplicate entry for email''))
       \<noteq> Inr ''Duplicate entry for email''
   \<and> formatForeignKeyError (Prim (JStr ''Cannot delete customer with existing rides''))
       = Inr ''Cannot delete customer with existing rides''"
proof -
  let ?a = "''ORA-02292: integrity constraint violated - child record found''"
  let ?b = "''Duplicate entry for email''"
  let ?c = "''Cannot delete customer with existing rides''"
  have a: "mentions_constraint ?a" by code_simp
  have b: "mentions_duplicate ?b" by code_simp
  have c: "\<not> mentions_constraint ?c" "\<not> mentions_duplicate ?c" by code_simp+
  have c': "?c \<noteq> []" by simp
  from a formatForeignKeyError_replaces_marked [of ?a]
  have "formatForeignKeyError (Prim (JStr ?a)) \<noteq> Inr ?a" by auto
  moreover from b formatForeignKeyError_replaces_marked [of ?b]
  have "formatForeignKeyError (Prim (JStr ?b)) \<noteq> Inr ?b" by auto
  moreover from c c' formatForeignKeyError_replaces_marked [of ?c]
  have "formatForeignKeyError (Prim (JStr ?c)) = Inr ?c" by blast
  ultimately show ?thesis using a b by blast
qed

subsection \<open>Network failures\<close>

lemma msg_network_plain: "\<not> mentions_constraint msg_network" "\<not> mentions_duplicate msg_network"
  by code_simp+

lemma getErrorMessage_network:
  "getErrorMessage (Obj [(''message'', Prim (JStr msg_network)), (''status'', Prim (JNum PosZero))])
     = Inr msg_network"
proof -
  have ne: "msg_network \<noteq> []" by (simp add: msg_network_def)
  then have "formatForeignKeyError (Prim (JStr msg_network)) = Inr msg_network"
    unfolding formatForeignKeyError_string using msg_network_plain by simp
  with ne show ?thesis by (simp add: getErrorMessage_def bindE_def)
qed

text \<open>
  C7: the client is configured with a timeout of 10000 milliseconds. For an error that
  carries no response but carries the request, which is how a timeout or any other
  network failure arrives, the interceptor rejects with one fixed object: the generic
  network message and status 0. Nothing of the failure is in it (the request is written
  to the console only), and \<open>getErrorMessage\<close> shows the caller that message as it is.
\<close>

theorem network_failure_reported_generically:
  "timeout apiClient = 10000
   \<and> (get_prop error ''response'' = Inr response \<and> \<not> truthy_obj response
       \<and> get_prop error ''request'' = Inr request \<and> truthy_obj request
      \<longrightarrow> response_error_interceptor error
            = Inr ([(''Network Error:'', request)],
                   Obj [(''message'', Prim (JStr msg_network)), (''status'', Prim (JNum PosZero))]))
   \<and> getErrorMessage (Obj [(''message'', Prim (JStr msg_network)), (''status'', Prim (JNum PosZero))])
       = Inr msg_network"
proof (intro conjI impI)
  show "timeout apiClient = 10000" by (simp add: apiClient_def)
  show "getErrorMessage (Obj [(''message'', Prim (JStr msg_network)), (''status'', Prim (JNum PosZero))])
       = Inr msg_network"
    by (rule getErrorMessage_network)
next
  assume "get_prop error ''response'' = Inr response \<and> \<not> truthy_obj response
       \<and> get_prop error ''request'' = Inr request \<and> truthy_obj request"
  then show "response_error_interceptor error
            = Inr ([(''Network Error:'', request)],
                   Obj [(''message'', Prim (JStr msg_network)), (''status'', Prim (JNum PosZero))])"
    by (simp add: response_error_interceptor_def bindE_def)
qed

theorem network_failure_reported_generically_witness:
  "response_error_interceptor
     (Obj [(''message'', Prim (JStr ''timeout of 10000ms exceeded'')),
           (''code'', Prim (JStr ''ECONNABORTED'')),
           (''request'', Obj [(''responseURL'', Prim (JStr ''http://localhost:5000/api/customers''))])])
   = Inr ([(''Network Error:'',
            Obj [(''responseURL'', Prim (JStr ''http://localhost:5000/api/customers''))])],
          Obj [(''message'', Prim (JStr msg_network)), (''status'', Prim (JNum PosZero))])"
proof -
  let ?req = "Obj [(''responseURL'', Prim (JStr ''http://localhost:5000/api/customers''))]"
  let ?err = "Obj [(''message'', Prim (JStr ''timeout of 10000ms exceeded'')),
           (''code'', Prim (JStr ''ECONNABORTED'')), (''request'', ?req)]"
  have "get_prop ?err ''response'' = Inr (Prim JUndefined) \<and> \<not> truthy_obj (Prim JUndefined)
        \<and> get_prop ?err ''request'' = Inr ?req \<and> truthy_obj ?req"
    by simp
  with network_failure_reported_generically [of ?err "Prim JUndefined" ?req]
  show ?thesis by blast
qed

subsection \<open>Totality of getErrorMessage\<close>

text \<open>
  C8, as stated, fails for an object whose \<open>message\<close> is not a string:
  \<open>getErrorMessage({message: 42})\<close> throws a TypeError, since \<open>formatForeignKeyError\<close>
  calls \<open>toLowerCase\<close> on the message.
\<close>

theorem getErrorMessage_throws_on_number_message:
  "getErrorMessage (Obj [(''message'', Prim (JNum (Dec False 42 2)))]) = Inl TypeError
   \<and> getErrorMessage
        (Obj [(''response'', Obj [(''data'', Obj [(''error'', Obj [(''code'', Prim (JStr ''E1''))])])])])
      = Inl TypeError"
  by (simp add: getErrorMessage_def formatForeignKeyError_def bindE_def is_string_def)

lemma fixed_messages_nonempty:
  "msg_customer \<noteq> []" "msg_driver \<noteq> []" "msg_vehicle \<noteq> []" "msg_location \<noteq> []"
  "msg_ride \<noteq> []" "msg_referenced \<noteq> []" "msg_duplicate \<noteq> []" "msg_unexpected \<noteq> []"
  by (simp_all add: msg_defs msg_unexpected_def)

lemma formatForeignKeyError_total:
  assumes "string_or_falsy v"
  shows "\<exists>s. formatForeignKeyError v = Inr s \<and> s \<noteq> []"
proof (cases "truthy_obj v")
  case False
  then show ?thesis by (simp add: formatForeignKeyError_def)
next
  case True
  with assms obtain msg where v: "v = Prim (JStr msg)"
    by (auto simp: string_or_falsy_def is_string_def split: jsobj.splits jsval.splits)
  with True have "msg \<noteq> []" by simp
  then show ?thesis
    unfolding v formatForeignKeyError_string using fixed_messages_nonempty by simp
qed

lemma get_prop_truthy: "truthy_obj v \<Longrightarrow> get_prop v k = Inr (prop_of v k)"
proof (cases v)
  case (Prim p)
  assume "truthy_obj v"
  with Prim show ?thesis by (cases p) (simp_all add: prop_of_def)
next
  case (Obj kvs)
  then show ?thesis by (simp add: prop_of_def)
qed

lemma formatForeignKeyError_non_string:
  assumes "truthy_obj v" "\<not> is_string v"
  shows "formatForeignKeyError v = Inl TypeError"
proof (cases v)
  case (Prim p)
  with assms show ?thesis
    by (cases p) (simp_all add: formatForeignKeyError_def bindE_def is_string_def)
next
  case (Obj kvs)
  then show ?thesis by (simp add: formatForeignKeyError_def bindE_def)
qed

lemma formatForeignKeyError_truthy_string:
  assumes "truthy_obj v" "is_string v"
  shows "\<exists>s. formatForeignKeyError v = Inr s \<and> s \<noteq> []"
  using assms formatForeignKeyError_total [of v] by (simp add: string_or_falsy_def)

lemma getErrorMessage_selects:
  "getErrorMessage error =
     (let message = prop_of error ''message'';
          response = prop_of error ''response'';
          data = prop_of response ''data'';
          err = prop_of data ''error'';
          msg = prop_of data ''message''
      in if \<not> truthy_obj error then Inr msg_unexpected
         else if truthy_obj message then formatForeignKeyError message
         else if is_string error then formatForeignKeyError error
         else if truthy_obj response \<and> truthy_obj data
         then (if truthy_obj err then formatForeignKeyError err
               else if truthy_obj msg then formatForeignKeyError msg
               else Inr msg_unexpected)
         else Inr msg_unexpected)"
proof (cases "truthy_obj error")
  case False
  then show ?thesis by (simp add: getErrorMessage_def Let_def)
next
  case te: True
  note g0 = get_prop_truthy [OF te]
  show ?thesis
  proof (cases "truthy_obj (prop_of error ''response'')
                \<and> truthy_obj (prop_of (prop_of error ''response'') ''data'')")
    case False
    with te show ?thesis
      by (auto simp: getErrorMessage_def bindE_def g0 get_prop_truthy Let_def)
  next
    case True
    then have g1: "get_prop (prop_of error ''response'') ''data''
                     = Inr (prop_of (prop_of error ''response'') ''data'')"
      and g2: "get_prop (prop_of (prop_of error ''response'') ''data'') k
                 = Inr (prop_of (prop_of (prop_of error ''response'') ''data'') k)" for k
      by (simp_all add: get_prop_truthy)
    from te True show ?thesis
      by (simp add: getErrorMessage_def bindE_def g0 g1 g2 Let_def)
  qed
qed

text \<open>
  C8, amended. \<open>getErrorMessage\<close> uses the first truthy message it meets: \<open>message\<close>;
  failing that, the input itself when it is a string; failing that, and with \<open>response\<close>
  and \<open>response.data\<close> truthy, \<open>response.data.error\<close> and then
  \<open>response.data.message\<close>. For every input on which that message is a string, or on
  which there is none, it returns a non-empty string; where there is none it returns
  \<open>An unexpected error occurred\<close>. On the inputs that are left, where that message is
  truthy and not a string, it throws a TypeError.
\<close>

theorem getErrorMessage_total:
  "(\<not> picks_non_string error \<longrightarrow> (\<exists>s. getErrorMessage error = Inr s \<and> s \<noteq> []))
   \<and> (picks_nothing error \<longrightarrow> getErrorMessage error = Inr msg_unexpected)
   \<and> (picks_non_string error \<longrightarrow> getErrorMessage error = Inl TypeError)"
proof (intro conjI impI)
  assume "picks_non_string error"
  then show "getErrorMessage error = Inl TypeError"
    unfolding getErrorMessage_selects picks_non_string_def Let_def
    by (auto simp: formatForeignKeyError_non_string)
next
  assume "picks_nothing error"
  then show "getErrorMessage error = Inr msg_unexpected"
    unfolding getErrorMessage_selects picks_nothing_def Let_def by auto
next
  assume ok: "\<not> picks_non_string error"
  let ?message = "prop_of error ''message''"
  let ?response = "prop_of error ''response''"
  let ?data = "prop_of ?response ''data''"
  let ?err = "prop_of ?data ''error''"
  let ?msg = "prop_of ?data ''message''"
  have fb: "\<exists>s. (Inr msg_unexpected :: js_error + string) = Inr s \<and> s \<noteq> []"
    using fixed_messages_nonempty by simp
  show "\<exists>s. getErrorMessage error = Inr s \<and> s \<noteq> []"
  proof (cases "truthy_obj error")
    case False
    with fb show ?thesis by (simp add: getErrorMessage_selects Let_def)
  next
    case te: True
    show ?thesis
    proof (cases "truthy_obj ?message")
      case True
      with ok te have "is_string ?message" by (auto simp: picks_non_string_def Let_def)
      with True te formatForeignKeyError_truthy_string [of ?message] show ?thesis
        by (simp add: getErrorMessage_selects Let_def)
    next
      case fm: False
      show ?thesis
      proof (cases "is_string error")
        case True
        with te fm formatForeignKeyError_truthy_string [of error] show ?thesis
          by (simp add: getErrorMessage_selects Let_def)
      next
        case ns: False
        show ?thesis
        proof (cases "truthy_obj ?response \<and> truthy_obj ?data")
          case False
          with te fm ns fb show ?thesis by (auto simp: getErrorMessage_selects Let_def)
        next
          case rd: True
          show ?thesis
          proof (cases "truthy_obj ?err")
            case True
            with ok te fm ns rd have "is_string ?err"
              by (auto simp: picks_non_string_def Let_def)
            with True te fm ns rd formatForeignKeyError_truthy_string [of ?err] show ?thesis
              by (simp add: getErrorMessage_selects Let_def)
          next
            case fe: False
            show ?thesis
            proof (cases "truthy_obj ?msg")
              case True
              with ok te fm ns rd fe have "is_string ?msg"
                by (auto simp: picks_non_string_def Let_def)
              with True te fm ns rd fe formatForeignKeyError_truthy_string [of ?msg]
              show ?thesis by (simp add: getErrorMessage_selects Let_def)
            next
              case False
              with te fm ns rd fe fb show ?thesis
                by (simp add: getErrorMessage_selects Let_def)
            qed
          qed
        qed
      qed
    qed
  qed
qed

theorem getErrorMessage_total_witness:
  "getErrorMessage (Prim JNull) = Inr msg_unexpected
   \<and> getErrorMessage (Obj [(''status'', Prim (JNum (Dec False 5 3)))]) = Inr msg_unexpected
   \<and> (\<exists>s. getErrorMessage
             (Obj [(''message'', Prim (JStr ''Customer not found'')),
                   (''response'', Obj [(''data'', Obj [(''error'', Prim (JNum (Dec False 42 2)))])])])
            = Inr s \<and> s \<noteq> [])
   \<and> (\<exists>s. getErrorMessage
             (Obj [(''response'', Obj [(''data'', Obj [(''error'', Prim (JStr ''Customer not found''))])])])
            = Inr s \<and> s \<noteq> [])
   \<and> getErrorMessage (Obj [(''message'', Prim (JNum (Dec False 42 2)))]) = Inl TypeError"
proof (intro conjI)
  let ?e1 = "Prim JNull"
  let ?e2 = "Obj [(''status'', Prim (JNum (Dec False 5 3)))]"
  let ?e3 = "Obj [(''message'', Prim (JStr ''Customer not found'')),
                   (''response'', Obj [(''data'', Obj [(''error'', Prim (JNum (Dec False 42 2)))])])]"
  let ?e4 = "Obj [(''response'', Obj [(''data'', Obj [(''error'', Prim (JStr ''Customer not found''))])])]"
  let ?e5 = "Obj [(''message'', Prim (JNum (Dec False 42 2)))]"
  have "picks_nothing ?e1" by (simp add: picks_nothing_def prop_of_def)
  with getErrorMessage_total [of ?e1] show "getErrorMessage ?e1 = Inr msg_unexpected" by blast
  have "picks_nothing ?e2" by (simp add: picks_nothing_def prop_of_def is_string_def)
  with getErrorMessage_total [of ?e2] show "getErrorMessage ?e2 = Inr msg_unexpected" by blast
  have "\<not> picks_non_string ?e3" by (simp add: picks_non_string_def prop_of_def is_string_def)
  with getErrorMessage_total [of ?e3] show "\<exists>s. getErrorMessage ?e3 = Inr s \<and> s \<noteq> []" by blast
  have "\<not> picks_non_string ?e4" by (simp add: picks_non_string_def prop_of_def is_string_def)
  with getErrorMessage_total [of ?e4] show "\<exists>s. getErrorMessage ?e4 = Inr s \<and> s \<noteq> []" by blast
  have "picks_non_string ?e5" by (simp add: picks_non_string_def prop_of_def is_string_def)
  with getErrorMessage_total [of ?e5] show "getErrorMessage ?e5 = Inl TypeError" by blast
qed

end
